theory Spec2Isabelle
  imports Main "HOL-Library.AList"
begin

section \<open>JavaScript values and objects\<close>

text \<open>
  A decoded JSONL line and a host node are both plain JavaScript objects. Property order
  is insertion order, so an object is an association list in which a key occurs once:
  writing an existing key replaces its value in place, writing a new key appends it.
  Reading an absent key gives \<open>undefined\<close>. Strings are lists of 8-bit characters; numbers are integers
  (identifiers and counts of the remote API, inside the range where a JavaScript number
  is exact).
\<close>

datatype jsval =
    JUndefined
  | JNull
  | JBool bool
  | JNum int
  | JStr string
  | JArr "jsval list"
  | JObj "(string \<times> jsval) list"

type_synonym obj = "(string \<times> jsval) list"

definition get_prop :: "obj \<Rightarrow> string \<Rightarrow> jsval" where
  "get_prop ob k = (case map_of ob k of None \<Rightarrow> JUndefined | Some v \<Rightarrow> v)"

definition has_prop :: "obj \<Rightarrow> string \<Rightarrow> bool" where
  "has_prop ob k = (k \<in> set (map fst ob))"

definition set_prop :: "obj \<Rightarrow> string \<Rightarrow> jsval \<Rightarrow> obj" where
  "set_prop ob k v = AList.update k v ob"

definition delete_prop :: "obj \<Rightarrow> string \<Rightarrow> obj" where
  "delete_prop ob k = AList.delete k ob"

text \<open>The truthiness test of \<^verbatim>\<open>if (x)\<close>.\<close>

fun truthy :: "jsval \<Rightarrow> bool" where
  "truthy JUndefined = False"
| "truthy JNull = False"
| "truthy (JBool b) = b"
| "truthy (JNum n) = (n \<noteq> 0)"
| "truthy (JStr s) = (s \<noteq> [])"
| "truthy (JArr _) = True"
| "truthy (JObj _) = True"

section \<open>The global-identifier pattern\<close>

text \<open>
  \<^verbatim>\<open>pattern = /^gid:\/\/shopify\/(\w+)\/(.+)$/\<close>. A word character is an ASCII letter,
  digit or underscore; the dot matches everything but a line terminator; without the
  multiline flag the dollar matches at the end of the input only. The slash is not a word
  character, so the first group is the whole run of word characters after the prefix.
  \<open>pattern_match\<close> is the array \<^verbatim>\<open>s.match(pattern)\<close>: the whole match and the two groups.
\<close>

definition isWordChar :: "char \<Rightarrow> bool" where
  "isWordChar c = (let n = (of_char c :: nat) in
     (48 \<le> n \<and> n \<le> 57) \<or> (65 \<le> n \<and> n \<le> 90) \<or> (97 \<le> n \<and> n \<le> 122) \<or> n = 95)"

definition isLineTerminator :: "char \<Rightarrow> bool" where
  "isLineTerminator c = (let n = (of_char c :: nat) in n = 10 \<or> n = 13)"

definition pattern_match :: "string \<Rightarrow> (string \<times> string \<times> string) option" where
  "pattern_match s =
     (if take 14 s = ''gid://shopify/'' then
        (let rest = drop 14 s;
             ty = takeWhile isWordChar rest
         in case dropWhile isWordChar rest of
              [] \<Rightarrow> None
            | c # idpart \<Rightarrow>
                if ty \<noteq> [] \<and> c = CHR ''/'' \<and> idpart \<noteq> [] \<and>
                   list_ex isLineTerminator idpart = False
                then Some (s, ty, idpart) else None)
      else None)"

text \<open>\<^verbatim>\<open>remoteType.charAt(0).toLowerCase() + remoteType.slice(1)\<close>, on word characters.\<close>

definition toLowerCase_char :: "char \<Rightarrow> char" where
  "toLowerCase_char c =
     (case map_of (zip ''ABCDEFGHIJKLMNOPQRSTUVWXYZ'' ''abcdefghijklmnopqrstuvwxyz'') c of
        None \<Rightarrow> c
      | Some l \<Rightarrow> l)"

definition lowerFirst :: "string \<Rightarrow> string" where
  "lowerFirst remoteType = map toLowerCase_char (take 1 remoteType) @ drop 1 remoteType"

section \<open>Errors\<close>

text \<open>The response of a poll of a bulk operation by id: \<^verbatim>\<open>operation.node\<close>.\<close>

record operation =
  status :: string
  objectCount :: string
  url :: string

datatype error =
    Error string                \<comment> \<open>\<^verbatim>\<open>throw new Error(msg)\<close>\<close>
  | TypeError string            \<comment> \<open>a property read or a call on a value that has none\<close>
  | ReferenceError string       \<comment> \<open>the use of a name that is not in scope\<close>
  | SyntaxError string          \<comment> \<open>\<^verbatim>\<open>JSON.parse\<close> on a malformed line\<close>
  | OperationFailed operation   \<comment> \<open>\<^verbatim>\<open>throw operation\<close>: the poll response itself\<close>
  | Panic                       \<comment> \<open>\<^verbatim>\<open>reporter.panic\<close>\<close>
  | External string             \<comment> \<open>a failure of a host collaborator\<close>

section \<open>The record builder\<close>

text \<open>
  What the builder takes from its surroundings: the host's \<^verbatim>\<open>createNodeId\<close> and
  \<^verbatim>\<open>createContentDigest\<close>, and \<^verbatim>\<open>createRemoteFileNode\<close> of the file-system plugin, which
  takes a URL and a parent node id and gives the id of the file node or fails.
\<close>

record gatsbyApi =
  createNodeId :: "jsval \<Rightarrow> string"
  createContentDigest :: "obj \<Rightarrow> string"
  createRemoteFileNode :: "jsval \<Rightarrow> jsval \<Rightarrow> error + string"

record pluginOptions =
  downloadImages :: bool
  shopifyConnections :: "string list"
  typePrefix :: "string option"

definition attachParentId :: "obj \<Rightarrow> error + obj" where
  "attachParentId ob =
     (if truthy (get_prop ob ''__parentId'') then
        (case get_prop ob ''__parentId'' of
           JStr p \<Rightarrow>
             (case pattern_match p of
                None \<Rightarrow> Inl (TypeError ''remoteType is undefined'')
              | Some (fullId, remoteType, _) \<Rightarrow>
                  (let field = lowerFirst remoteType;
                       idField = field @ ''Id''
                   in Inr (delete_prop (set_prop ob idField (JStr fullId)) ''__parentId'')))
         | _ \<Rightarrow> Inl (TypeError ''obj.__parentId.match is not a function''))
      else Inr ob)"

definition downloadImageAndCreateFileNode ::
  "jsval \<Rightarrow> jsval \<Rightarrow> gatsbyApi \<Rightarrow> error + string" where
  "downloadImageAndCreateFileNode u nodeId api = createRemoteFileNode api u nodeId"

text \<open>
  The three entries of \<^verbatim>\<open>processorMap\<close>; every other remote type gets the hook that does
  nothing. A hook changes the node it is given; here it returns the changed node.
\<close>

definition processor_LineItem :: "obj \<Rightarrow> error + obj" where
  "processor_LineItem node =
     (case get_prop node ''product'' of
        JUndefined \<Rightarrow> Inl (TypeError ''cannot read property id of undefined'')
      | JNull \<Rightarrow> Inl (TypeError ''cannot read property id of null'')
      | JObj p \<Rightarrow> Inr (delete_prop (set_prop node ''productId'' (get_prop p ''id'')) ''product'')
      | _ \<Rightarrow> Inr (delete_prop (set_prop node ''productId'' JUndefined) ''product''))"

definition processor_ProductImage :: "obj \<Rightarrow> gatsbyApi \<Rightarrow> pluginOptions \<Rightarrow> error + obj" where
  "processor_ProductImage node api options =
     (if downloadImages options then
        (case downloadImageAndCreateFileNode (get_prop node ''originalSrc'')
                (get_prop node ''id'') api of
           Inl e \<Rightarrow> Inl e
         | Inr fileNodeId \<Rightarrow> Inr (set_prop node ''localFile'' (JStr fileNodeId)))
      else Inr node)"

text \<open>
  The featured image is an object of the node; the hook writes \<^verbatim>\<open>localFile\<close> into it. On
  a truthy value that is no object the read of \<^verbatim>\<open>originalSrc\<close> gives \<open>undefined\<close> and the
  write fails in strict mode; an array (which the remote schema never sends here) is
  left as it is.
\<close>

definition processor_Product :: "obj \<Rightarrow> gatsbyApi \<Rightarrow> pluginOptions \<Rightarrow> error + obj" where
  "processor_Product node api options =
     (if downloadImages options then
        (let featuredImage = get_prop node ''featuredImage'' in
         if truthy featuredImage then
           (case featuredImage of
              JObj fi \<Rightarrow>
                (case downloadImageAndCreateFileNode (get_prop fi ''originalSrc'')
                        (get_prop node ''id'') api of
                   Inl e \<Rightarrow> Inl e
                 | Inr fileNodeId \<Rightarrow>
                     Inr (set_prop node ''featuredImage''
                            (JObj (set_prop fi ''localFile'' (JStr fileNodeId)))))
            | JArr _ \<Rightarrow>
                (case downloadImageAndCreateFileNode JUndefined (get_prop node ''id'') api of
                   Inl e \<Rightarrow> Inl e
                 | Inr fileNodeId \<Rightarrow> Inr node)
            | _ \<Rightarrow>
                (case downloadImageAndCreateFileNode JUndefined (get_prop node ''id'') api of
                   Inl e \<Rightarrow> Inl e
                 | Inr fileNodeId \<Rightarrow>
                     Inl (TypeError ''cannot create property localFile on a primitive'')))
         else Inr node)
      else Inr node)"

text \<open>
  \<^verbatim>\<open>processorMap[remoteType]\<close> is a property read on an object literal, and it also finds
  what every object inherits. Two of the inherited functions return without touching
  the node (\<^verbatim>\<open>constructor\<close>, \<^verbatim>\<open>toString\<close>), so for them the hook does nothing, as for a
  name that is not found. The others fail when they are called as a plain function, and
  \<^verbatim>\<open>__proto__\<close> is no function at all.
\<close>

definition inheritedFailing :: "string list" where
  "inheritedFailing =
     [''hasOwnProperty'', ''isPrototypeOf'', ''propertyIsEnumerable'', ''toLocaleString'',
      ''valueOf'', ''__proto__'', ''__defineGetter__'', ''__defineSetter__'',
      ''__lookupGetter__'', ''__lookupSetter__'']"

definition processorMap :: "string \<Rightarrow> obj \<Rightarrow> gatsbyApi \<Rightarrow> pluginOptions \<Rightarrow> error + obj" where
  "processorMap remoteType node api options =
     (if remoteType = ''LineItem'' then processor_LineItem node
      else if remoteType = ''ProductImage'' then processor_ProductImage node api options
      else if remoteType = ''Product'' then processor_Product node api options
      else if remoteType \<in> set inheritedFailing
      then Inl (TypeError ''the inherited property cannot be called as a hook'')
      else Inr node)"

text \<open>
  \<^verbatim>\<open>buildNode\<close> of the builder that assembles the node itself
  (\<^verbatim>\<open>src/unnamed/part_003\<close>). Its argument is declared with a string \<^verbatim>\<open>id\<close>;
  \<^verbatim>\<open>pattern.test\<close> turns any other value into a string first, and none of
  \<open>undefined\<close>, \<open>null\<close>, a boolean, a number or an object has a string form that matches.
  An array, which the declared type excludes as well, fails too, with this error or on
  the call of \<^verbatim>\<open>match\<close>, as its string form decides; the model gives this error.
  The fields \<^verbatim>\<open>shopifyId\<close>, \<^verbatim>\<open>id\<close> and \<^verbatim>\<open>internal\<close> are written after the spread of
  the record, in this order, from the record as \<^verbatim>\<open>attachParentId\<close> left it.
\<close>

definition buildNode_part_003 :: "gatsbyApi \<Rightarrow> pluginOptions \<Rightarrow> obj \<Rightarrow> error + obj" where
  "buildNode_part_003 api options result =
     (case get_prop result ''id'' of
        JStr rid \<Rightarrow>
          (case pattern_match rid of
             None \<Rightarrow> Inl (Error ''Expected an ID in the format gid://shopify/<typename>/<id>'')
           | Some (_, remoteType, _) \<Rightarrow>
               (case attachParentId result of
                  Inl e \<Rightarrow> Inl e
                | Inr result' \<Rightarrow>
                    (let node =
                       set_prop
                         (set_prop
                            (set_prop result' ''shopifyId'' (get_prop result' ''id''))
                            ''id'' (JStr (createNodeId api (get_prop result' ''id''))))
                         ''internal''
                         (JObj [(''type'', JStr (''Shopify'' @ remoteType)),
                                (''contentDigest'', JStr (createContentDigest api result'))])
                     in processorMap remoteType node api options)))
      | _ \<Rightarrow> Inl (Error ''Expected an ID in the format gid://shopify/<typename>/<id>''))"

text \<open>
  \<^verbatim>\<open>buildFromId\<close> and \<^verbatim>\<open>buildNode\<close> of \<^verbatim>\<open>src/plugin/src/node-builder.ts\<close>. The node is
  assembled by a factory of the node-helpers library, which is not part of the
  repository: \<open>createNodeFactory\<close> takes the remote type (\<open>undefined\<close> when the identifier
  does not match) and the record, whose \<^verbatim>\<open>id\<close> is the first element of the match array.
  The cache of factories, \<^verbatim>\<open>factoryMap\<close>, is taken to hold what was put into it: the
  remote types are those of the remote schema, none of which is the name of a property
  that every object inherits.
\<close>

record nodeHelpers =
  createNodeFactory :: "jsval \<Rightarrow> obj \<Rightarrow> error + obj"

definition buildFromId ::
  "nodeHelpers \<Rightarrow> gatsbyApi \<Rightarrow> pluginOptions \<Rightarrow> obj \<Rightarrow> error + obj" where
  "buildFromId helpers api options ob =
     (case get_prop ob ''id'' of
        JStr oid \<Rightarrow>
          (let m = pattern_match oid;
               shopifyId = (case m of None \<Rightarrow> JUndefined | Some (full, _, _) \<Rightarrow> JStr full);
               remoteType = (case m of None \<Rightarrow> JUndefined | Some (_, ty, _) \<Rightarrow> JStr ty)
           in case attachParentId ob of
                Inl e \<Rightarrow> Inl e
              | Inr ob' \<Rightarrow>
                  (case createNodeFactory helpers remoteType (set_prop ob' ''id'' shopifyId) of
                     Inl e \<Rightarrow> Inl e
                   | Inr node \<Rightarrow>
                       (case m of
                          None \<Rightarrow> Inr node
                        | Some (_, ty, _) \<Rightarrow> processorMap ty node api options)))
      | _ \<Rightarrow> Inl (TypeError ''obj.id.match is not a function''))"

definition buildNode ::
  "nodeHelpers \<Rightarrow> gatsbyApi \<Rightarrow> pluginOptions \<Rightarrow> obj \<Rightarrow> error + obj" where
  "buildNode helpers api options ob =
     (if truthy (get_prop ob ''id'') then buildFromId helpers api options ob
      else Inl (Error ''Cannot create a node without type information''))"

text \<open>\<^verbatim>\<open>node.internal.type\<close> of a host node.\<close>

definition internal_type :: "obj \<Rightarrow> jsval" where
  "internal_type node =
     (case get_prop node ''internal'' of JObj i \<Rightarrow> get_prop i ''type'' | _ \<Rightarrow> JUndefined)"

section \<open>The job poller\<close>

text \<open>
  The remote system is what its answers are: \<open>cur i\<close> is the answer to the \<open>i\<close>-th request
  for the current bulk operation (\<open>None\<close> when \<^verbatim>\<open>currentBulkOperation\<close> is null), and
  \<open>polls i\<close> the answer to the \<open>i\<close>-th request for the submitted operation by its id. Both
  loops of the source call themselves after a timer; here they count the requests made
  and add up the milliseconds waited. A loop that polls for ever has no result: \<open>None\<close>.
\<close>

record currentBulkOperation =
  cbo_id :: string
  cbo_status :: string

definition finishedStatuses :: "string list" where
  "finishedStatuses = [''COMPLETED'', ''FAILED'', ''CANCELED'']"

partial_function (option) finishLastOperation ::
  "(nat \<Rightarrow> currentBulkOperation option) \<Rightarrow> nat \<Rightarrow> nat \<Rightarrow> (nat \<times> nat) option" where
  "finishLastOperation cur i waited =
     (case cur i of
        None \<Rightarrow> Some (i, waited)
      | Some c \<Rightarrow>
          if cbo_id c \<noteq> [] then
            (if cbo_status c \<in> set finishedStatuses then Some (i, waited)
             else finishLastOperation cur (Suc i) (waited + 1000))
          else Some (i, waited))"

partial_function (option) completedOperation ::
  "(nat \<Rightarrow> operation) \<Rightarrow> nat \<Rightarrow> nat \<Rightarrow> nat \<Rightarrow> ((error + operation) \<times> nat \<times> nat) option" where
  "completedOperation polls interval i waited =
     (let operation = polls i in
      if status operation = ''FAILED'' then Some (Inl (OperationFailed operation), i, waited)
      else if status operation = ''COMPLETED'' then Some (Inr operation, i, waited)
      else completedOperation polls interval (Suc i) (waited + interval))"

text \<open>
  The tests under which the two loops stop, and what the second loop then does: it throws
  the response when the status is \<^verbatim>\<open>FAILED\<close> and returns it when the status is
  \<^verbatim>\<open>COMPLETED\<close>.
\<close>

definition lastOperationFinished :: "currentBulkOperation option \<Rightarrow> bool" where
  "lastOperationFinished c =
     (case c of
        None \<Rightarrow> True
      | Some b \<Rightarrow> cbo_id b = [] \<or> cbo_status b \<in> set finishedStatuses)"

definition pollSettled :: "operation \<Rightarrow> bool" where
  "pollSettled p = (status p = ''FAILED'' \<or> status p = ''COMPLETED'')"

definition pollOutcome :: "operation \<Rightarrow> error + operation" where
  "pollOutcome p = (if status p = ''FAILED'' then Inl (OperationFailed p) else Inr p)"

section \<open>Numbers read from strings\<close>

text \<open>
  \<^verbatim>\<open>parseInt(s, 10)\<close>: leading white space is skipped, a sign is read, then the longest
  run of decimal digits; with no digit the result is \<open>NaN\<close>, here \<open>None\<close>. A value that is
  no string is turned into one first: a number reads back as itself (the numbers here
  are integers that JavaScript prints digit by digit, without an exponent), an array
  reads as its first element does, everything else has no leading digit. \<open>parseInt\<close>
  below gives the integer that the sign and the digits denote. The number that
  JavaScript returns is the double nearest to that integer, \<open>toNumber\<close> of it; it is zero
  exactly when the integer is, and where it is compared with another number the
  comparison is one of doubles.
\<close>

definition isWhiteSpace :: "char \<Rightarrow> bool" where
  "isWhiteSpace c = (let n = (of_char c :: nat) in
     n = 9 \<or> n = 10 \<or> n = 11 \<or> n = 12 \<or> n = 13 \<or> n = 32 \<or> n = 160)"

definition isDigit :: "char \<Rightarrow> bool" where
  "isDigit c = (let n = (of_char c :: nat) in 48 \<le> n \<and> n \<le> 57)"

definition digitsValue :: "string \<Rightarrow> int" where
  "digitsValue ds = foldl (\<lambda>a c. 10 * a + (int (of_char c) - 48)) 0 ds"

definition parseInt10 :: "string \<Rightarrow> int option" where
  "parseInt10 s =
     (let s1 = dropWhile isWhiteSpace s;
          neg = (take 1 s1 = ''-'');
          s2 = (if take 1 s1 = ''-'' \<or> take 1 s1 = ''+'' then drop 1 s1 else s1);
          ds = takeWhile isDigit s2
      in if ds = [] then None
         else Some (if neg then - digitsValue ds else digitsValue ds))"

fun parseInt :: "jsval \<Rightarrow> int option" where
  "parseInt (JStr s) = parseInt10 s"
| "parseInt (JNum n) = Some n"
| "parseInt (JArr (JUndefined # _)) = None"
| "parseInt (JArr (JNull # _)) = None"
| "parseInt (JArr (x # _)) = parseInt x"
| "parseInt (JArr []) = None"
| "parseInt JUndefined = None"
| "parseInt JNull = None"
| "parseInt (JBool _) = None"
| "parseInt (JObj _) = None"

text \<open>
  The double nearest to an integer: an integer below \<open>2^53\<close> in size is a double; a larger
  one keeps its 53 leading bits, rounded to the nearest, to the even one on a tie; from
  \<open>2^1024\<close> on the result is an infinity. (The language lets an engine put zeros for the
  digits after the twentieth; here every digit is read.)
\<close>

datatype number = Finite int | Infinity | NegInfinity

fun bitLength :: "nat \<Rightarrow> nat" where
  "bitLength n = (if n = 0 then 0 else Suc (bitLength (n div 2)))"

definition roundToDouble :: "nat \<Rightarrow> nat" where
  "roundToDouble n =
     (if n < 2 ^ 53 then n
      else (let e = bitLength n - 53;
                q = n div 2 ^ e;
                r = n mod 2 ^ e
            in (if 2 ^ e < 2 * r \<or> (2 * r = 2 ^ e \<and> odd q) then q + 1 else q) * 2 ^ e))"

definition toNumber :: "int \<Rightarrow> number" where
  "toNumber z =
     (let m = roundToDouble (nat \<bar>z\<bar>) in
      if 2 ^ 1024 \<le> m then (if z < 0 then NegInfinity else Infinity)
      else Finite (if z < 0 then - int m else int m))"

section \<open>The host store\<close>

text \<open>
  The host keeps the nodes and is told what to do with them. Its state is the list of
  stored nodes together with the trace of everything the plugin asked for, in order;
  the trace also records the download of a result file and the message of an empty
  result. \<^verbatim>\<open>createNode\<close> replaces a stored node of the same id, \<^verbatim>\<open>deleteNode\<close> removes the
  node it is given, \<^verbatim>\<open>touchNode\<close> changes nothing that is modelled.
\<close>

datatype action =
    CreateNode obj
  | DeleteNode obj
  | TouchNode jsval
  | Fetch string
  | Info string
  | CacheSet int

record host =
  nodes :: "obj list"
  trace :: "action list"

definition getNodesByType :: "host \<Rightarrow> string \<Rightarrow> obj list" where
  "getNodesByType h t = filter (\<lambda>n. internal_type n = JStr t) (nodes h)"

definition createNode :: "obj \<Rightarrow> host \<Rightarrow> host" where
  "createNode node h =
     h\<lparr>nodes := filter (\<lambda>n. get_prop n ''id'' \<noteq> get_prop node ''id'') (nodes h) @ [node],
       trace := trace h @ [CreateNode node]\<rparr>"

definition deleteNode :: "obj \<Rightarrow> host \<Rightarrow> host" where
  "deleteNode node h =
     h\<lparr>nodes := removeAll node (nodes h), trace := trace h @ [DeleteNode node]\<rparr>"

definition touchNode :: "jsval \<Rightarrow> host \<Rightarrow> host" where
  "touchNode nodeId h = h\<lparr>trace := trace h @ [TouchNode nodeId]\<rparr>"

fun perform :: "action \<Rightarrow> host \<Rightarrow> host" where
  "perform (CreateNode n) h = createNode n h"
| "perform (DeleteNode n) h = deleteNode n h"
| "perform (TouchNode i) h = touchNode i h"
| "perform a h = h\<lparr>trace := trace h @ [a]\<rparr>"

definition performAll :: "action list \<Rightarrow> host \<Rightarrow> host" where
  "performAll as h = foldl (\<lambda>h a. perform a h) h as"

section \<open>One bulk operation, from submission to published nodes\<close>

text \<open>
  What one pipeline sees of the remote system: the answers to its status requests, the
  answer to its submission, the answers to the polls of the submitted operation, the
  lines of the result file behind a URL, and \<^verbatim>\<open>JSON.parse\<close>, which gives the object of a
  line or fails.
\<close>

datatype query =
    CREATE_PRODUCTS_OPERATION
  | CREATE_ORDERS_OPERATION
  | IncrementalProductsQuery string
  | IncrementalOrdersQuery string

record bulkOperationRunQuery =
  userErrors :: "string list"
  bulkOperation_id :: string

record remote =
  currentOperation :: "nat \<Rightarrow> currentBulkOperation option"
  execute :: "query \<Rightarrow> bulkOperationRunQuery"
  operationById :: "string \<Rightarrow> nat \<Rightarrow> operation"
  fetch :: "string \<Rightarrow> string list"
  JSON_parse :: "string \<Rightarrow> obj option"

fun parseLines :: "(string \<Rightarrow> obj option) \<Rightarrow> string list \<Rightarrow> error + obj list" where
  "parseLines parse [] = Inr []"
| "parseLines parse (l # ls) =
     (case parse l of
        None \<Rightarrow> Inl (SyntaxError l)
      | Some ob \<Rightarrow>
          (case parseLines parse ls of Inl e \<Rightarrow> Inl e | Inr obs \<Rightarrow> Inr (ob # obs)))"

text \<open>
  Every build that succeeds is handed to \<^verbatim>\<open>createNode\<close>; the pipeline fails when one of
  the builds fails.
\<close>

fun createNodes :: "(error + obj) list \<Rightarrow> action list" where
  "createNodes [] = []"
| "createNodes (Inr node # rs) = CreateNode node # createNodes rs"
| "createNodes (Inl e # rs) = createNodes rs"

fun firstError :: "(error + obj) list \<Rightarrow> error + unit" where
  "firstError [] = Inr ()"
| "firstError (Inl e # rs) = Inl e"
| "firstError (Inr node # rs) = firstError rs"

text \<open>
  \<^verbatim>\<open>sourceFromOperation\<close>. The operation \<open>op\<close> is the query it will submit, or the error
  raised when the query is put together. The result is what the pipeline asked of the
  host and how it ended; \<open>None\<close> when one of the two polling loops never ends.
\<close>

definition sourceFromOperation ::
  "(obj \<Rightarrow> error + obj) \<Rightarrow> remote \<Rightarrow> error + query \<Rightarrow> (action list \<times> (error + unit)) option" where
  "sourceFromOperation builder r op =
     (case finishLastOperation (currentOperation r) 0 0 of
        None \<Rightarrow> None
      | Some _ \<Rightarrow>
          (case op of
             Inl e \<Rightarrow> Some ([], Inl e)
           | Inr q \<Rightarrow>
               (let answer = execute r q in
                if userErrors answer \<noteq> [] then Some ([], Inl Panic)
                else
                  (case completedOperation (operationById r (bulkOperation_id answer)) 1000 0 0 of
                     None \<Rightarrow> None
                   | Some (Inl e, _) \<Rightarrow> Some ([], Inl e)
                   | Some (Inr resp, _) \<Rightarrow>
                       if parseInt (JStr (objectCount resp)) = Some 0
                       then Some ([Info ''No data was returned for this operation''], Inr ())
                       else
                         (case parseLines (JSON_parse r) (fetch r (url resp)) of
                            Inl e \<Rightarrow> Some ([Fetch (url resp)], Inl e)
                          | Inr objs \<Rightarrow>
                              Some (Fetch (url resp) # createNodes (map builder objs),
                                    firstError (map builder objs)))))))"

section \<open>The sync pass\<close>

text \<open>
  The pipelines of one pass run side by side under \<^verbatim>\<open>Promise.all\<close>: it fails as soon as
  one of them fails, succeeds when all have succeeded, and is pending for ever
  otherwise. Each pipeline has its own view of the remote system; what the pipelines
  ask of the host is recorded pipeline by pipeline, and of several failures the one of
  the earlier pipeline is reported.
\<close>

datatype collection = Products | Orders

record event =
  subject_id :: int
  subject_type :: string

record env =
  remote :: "collection \<Rightarrow> remote"
  isoFormat :: "int \<Rightarrow> string"
  fetchDestroyEventsSince :: "int option \<Rightarrow> event list"

fun errorsOf :: "(action list \<times> (error + unit)) list \<Rightarrow> error list" where
  "errorsOf [] = []"
| "errorsOf ((_, Inl e) # rs) = e # errorsOf rs"
| "errorsOf ((_, Inr _) # rs) = errorsOf rs"

definition promiseAll ::
  "(action list \<times> (error + unit)) option list \<Rightarrow> (action list \<times> (error + unit)) option" where
  "promiseAll outcomes =
     (let settled = List.map_filter (\<lambda>x. x) outcomes;
          acts = concat (map fst settled)
      in case errorsOf settled of
           e # _ \<Rightarrow> Some (acts, Inl e)
         | [] \<Rightarrow> if list_ex (\<lambda>x. x = None) outcomes then None else Some (acts, Inr ()))"

definition shopifyNodeTypes :: "string list" where
  "shopifyNodeTypes =
     [''ShopifyLineItem'', ''ShopifyMetafield'', ''ShopifyOrder'', ''ShopifyProduct'',
      ''ShopifyProductImage'', ''ShopifyProductVariant'', ''ShopifyProductVariantPricePair'']"

text \<open>
  \<^verbatim>\<open>new Date(lastBuildTime).toISOString()\<close> raises a range error outside the range of
  dates, and on no value at all.
\<close>

definition toISOString :: "env \<Rightarrow> int option \<Rightarrow> error + string" where
  "toISOString e t =
     (case t of
        None \<Rightarrow> Inl (Error ''RangeError: Invalid time value'')
      | Some ms \<Rightarrow>
          if \<bar>ms\<bar> \<le> 8640000000000000 then Inr (isoFormat e ms)
          else Inl (Error ''RangeError: Invalid time value''))"

text \<open>The first loop of \<^verbatim>\<open>sourceChangedNodes\<close>: every stored node of a tracked type is touched.\<close>

definition touchPass :: "host \<Rightarrow> host" where
  "touchPass h =
     foldl (\<lambda>h nodeType.
              foldl (\<lambda>h node. touchNode (get_prop node ''id'') h) h (getNodesByType h nodeType))
           h shopifyNodeTypes"

text \<open>
  The last loop of \<^verbatim>\<open>sourceChangedNodes\<close>: the test of a stored node against the destroy
  events, and the deletion of the nodes that have one. The subject id of an event is the
  integer of the response; the code holds it as a number, the double nearest to it.
\<close>

definition matchesEvent :: "obj \<Rightarrow> event \<Rightarrow> bool" where
  "matchesEvent node ev =
     (map_option toNumber (parseInt (get_prop node ''shopifyId'')) =
        Some (toNumber (subject_id ev)) \<and>
      internal_type node = JStr (''Shopify'' @ subject_type ev))"

definition destroyNodesOfType :: "event list \<Rightarrow> host \<Rightarrow> string \<Rightarrow> host" where
  "destroyNodesOfType destroyEvents h nodeType =
     foldl (\<lambda>h node. if list_ex (matchesEvent node) destroyEvents
                      then deleteNode node h else h)
           h (getNodesByType h nodeType)"

definition destroyPass :: "event list \<Rightarrow> host \<Rightarrow> host" where
  "destroyPass destroyEvents h =
     (if destroyEvents \<noteq> [] then foldl (destroyNodesOfType destroyEvents) h shopifyNodeTypes
      else h)"

text \<open>
  The same loop in the JavaScript copy of the file (\<^verbatim>\<open>src/unnamed/part_000\<close>). There the
  deletion is written \<^verbatim>\<open>actions.deleteNode({ node })\<close>, and the function has no \<^verbatim>\<open>actions\<close>
  in scope: the first stored node that has a destroy event ends the loop with a
  reference error, and no node is deleted.
\<close>

fun destroyNodes_part_000 :: "event list \<Rightarrow> obj list \<Rightarrow> error + unit" where
  "destroyNodes_part_000 destroyEvents [] = Inr ()"
| "destroyNodes_part_000 destroyEvents (node # ns) =
     (if list_ex (matchesEvent node) destroyEvents
      then Inl (ReferenceError ''actions is not defined'')
      else destroyNodes_part_000 destroyEvents ns)"

fun destroyTypes_part_000 :: "event list \<Rightarrow> host \<Rightarrow> string list \<Rightarrow> error + host" where
  "destroyTypes_part_000 destroyEvents h [] = Inr h"
| "destroyTypes_part_000 destroyEvents h (nodeType # ts) =
     (case destroyNodes_part_000 destroyEvents (getNodesByType h nodeType) of
        Inl err \<Rightarrow> Inl err
      | Inr _ \<Rightarrow> destroyTypes_part_000 destroyEvents h ts)"

definition destroyPass_part_000 :: "event list \<Rightarrow> host \<Rightarrow> error + host" where
  "destroyPass_part_000 destroyEvents h =
     (if destroyEvents \<noteq> [] then destroyTypes_part_000 destroyEvents h shopifyNodeTypes
      else Inr h)"

text \<open>
  \<^verbatim>\<open>createOperations(options, { reporter })\<close> takes the reporter out of its second
  argument, and fails when there is none. What it returns, the operations and the two
  polling loops, is modelled by the queries and by \<open>finishLastOperation\<close> and
  \<open>completedOperation\<close> above.

  \<^verbatim>\<open>sourceAllNodes\<close> and \<^verbatim>\<open>sourceChangedNodes\<close> begin with the call
  \<^verbatim>\<open>createOperations(pluginOptions)\<close>. In the definitions \<open>second\<close> is the second argument of
  that call. The source passes none, which is \<open>second = None\<close>: the pass then ends in the
  type error of the call before it has done anything. With \<open>Some\<close> argument the
  definitions say what the rest of the function does.
\<close>

definition createOperations :: "pluginOptions \<Rightarrow> gatsbyApi option \<Rightarrow> error + unit" where
  "createOperations options second =
     (case second of
        None \<Rightarrow> Inl (TypeError ''Cannot destructure property reporter of undefined'')
      | Some api \<Rightarrow> Inr ())"

definition fullOperations :: "pluginOptions \<Rightarrow> (collection \<times> (error + query)) list" where
  "fullOperations options =
     (Products, Inr CREATE_PRODUCTS_OPERATION) #
     (if ''orders'' \<in> set (shopifyConnections options)
      then [(Orders, Inr CREATE_ORDERS_OPERATION)] else [])"

definition deltaOperations ::
  "env \<Rightarrow> pluginOptions \<Rightarrow> int option \<Rightarrow> (collection \<times> (error + query)) list" where
  "deltaOperations e options lastBuildTime =
     (Products, map_sum (\<lambda>x. x) IncrementalProductsQuery (toISOString e lastBuildTime)) #
     (if ''orders'' \<in> set (shopifyConnections options)
      then [(Orders, map_sum (\<lambda>x. x) IncrementalOrdersQuery (toISOString e lastBuildTime))]
      else [])"

definition sourceAllNodes ::
  "gatsbyApi option \<Rightarrow> (obj \<Rightarrow> error + obj) \<Rightarrow> env \<Rightarrow> pluginOptions \<Rightarrow> host
     \<Rightarrow> (host \<times> (error + unit)) option" where
  "sourceAllNodes second builder e options h =
     (case createOperations options second of
        Inl err \<Rightarrow> Some (h, Inl err)
      | Inr _ \<Rightarrow>
          (let operations = fullOperations options in
           case promiseAll
                  (map (\<lambda>(c, op). sourceFromOperation builder (remote e c) op) operations) of
             None \<Rightarrow> None
           | Some (acts, res) \<Rightarrow> Some (performAll acts h, res)))"

definition sourceChangedNodes ::
  "gatsbyApi option \<Rightarrow> (obj \<Rightarrow> error + obj) \<Rightarrow> env \<Rightarrow> pluginOptions \<Rightarrow> int option \<Rightarrow> host
     \<Rightarrow> (host \<times> (error + unit)) option" where
  "sourceChangedNodes second builder e options cache h =
     (case createOperations options second of
        Inl err \<Rightarrow> Some (h, Inl err)
      | Inr _ \<Rightarrow>
          (let lastBuildTime = cache;
               h1 = touchPass h;
               operations = deltaOperations e options lastBuildTime
           in case promiseAll
                     (map (\<lambda>(c, op). sourceFromOperation builder (remote e c) op) operations) of
                None \<Rightarrow> None
              | Some (acts, Inl err) \<Rightarrow> Some (performAll acts h1, Inl err)
              | Some (acts, Inr _) \<Rightarrow>
                  Some (destroyPass (fetchDestroyEventsSince e lastBuildTime)
                          (performAll acts h1),
                        Inr ())))"

text \<open>
  \<^verbatim>\<open>sourceNodes\<close>. The cache holds the time of the last build under one key, or nothing;
  \<open>now\<close> is the clock when the pass has ended. The result is the host, the cache and the
  way the pass ended. \<open>cacheSet\<close> is the last statement, \<^verbatim>\<open>cache.set\<close>: it is reached when
  the pass has returned, and not when the pass has thrown or is still pending.
\<close>

definition cacheSet ::
  "int \<Rightarrow> int option \<Rightarrow> (host \<times> (error + unit)) option
     \<Rightarrow> (host \<times> int option \<times> (error + unit)) option" where
  "cacheSet now cache pass =
     (case pass of
        None \<Rightarrow> None
      | Some (h', Inl err) \<Rightarrow> Some (h', cache, Inl err)
      | Some (h', Inr _) \<Rightarrow> Some (h'\<lparr>trace := trace h' @ [CacheSet now]\<rparr>, Some now, Inr ()))"

definition sourceNodes ::
  "gatsbyApi option \<Rightarrow> (obj \<Rightarrow> error + obj) \<Rightarrow> env \<Rightarrow> pluginOptions \<Rightarrow> int \<Rightarrow> int option
     \<Rightarrow> host \<Rightarrow> (host \<times> int option \<times> (error + unit)) option" where
  "sourceNodes second builder e options now cache h =
     (let lastBuildTime = cache in
      cacheSet now cache
        (if (case lastBuildTime of None \<Rightarrow> False | Some t \<Rightarrow> t \<noteq> 0)
         then sourceChangedNodes second builder e options cache h
         else sourceAllNodes second builder e options h))"

text \<open>
  What a step added to the trace: \<open>traceExtends P h h'\<close> when the trace of \<open>h'\<close> is the
  trace of \<open>h\<close> followed by actions that all satisfy \<open>P\<close>.
\<close>

definition traceExtends :: "(action \<Rightarrow> bool) \<Rightarrow> host \<Rightarrow> host \<Rightarrow> bool" where
  "traceExtends P h h' = (\<exists>new. trace h' = trace h @ new \<and> list_all P new)"

fun isCacheSet :: "action \<Rightarrow> bool" where
  "isCacheSet (CacheSet _) = True"
| "isCacheSet _ = False"

fun isDeleteNode :: "action \<Rightarrow> bool" where
  "isDeleteNode (DeleteNode _) = True"
| "isDeleteNode _ = False"

section \<open>The reconciliation hook of the incremental products pass\<close>

text \<open>
  \<^verbatim>\<open>incrementalProductsProcessor\<close>. The records of a batch have string identifiers.
  \<^verbatim>\<open>includes\<close> compares with \<open>sameValueZero\<close>: primitive values by value, arrays and
  objects by identity, and two stored nodes share none.

  The hook imports \<^verbatim>\<open>createNodeId\<close> from \<^verbatim>\<open>../node-builder\<close>. The node builder of the
  repository exports \<^verbatim>\<open>pattern\<close> and \<^verbatim>\<open>nodeBuilder\<close> and nothing of that name: the import
  is \<open>undefined\<close>, and the first call of it, for the first product of the batch, raises a
  type error. \<open>createNodeId'\<close> is what the import gives, \<open>None\<close> for \<open>undefined\<close>;
  \<open>createNodeId_of_node_builder\<close> is what \<^verbatim>\<open>src/plugin/src/node-builder.ts\<close> gives.
\<close>

definition createNodeId_of_node_builder :: "(jsval \<Rightarrow> string) option" where
  "createNodeId_of_node_builder = None"

fun sameValueZero :: "jsval \<Rightarrow> jsval \<Rightarrow> bool" where
  "sameValueZero (JArr _) _ = False"
| "sameValueZero (JObj _) _ = False"
| "sameValueZero a b = (a = b)"

definition isProduct :: "obj \<Rightarrow> error + bool" where
  "isProduct ob =
     (case get_prop ob ''id'' of
        JStr s \<Rightarrow> Inr (case pattern_match s of
                        None \<Rightarrow> False
                      | Some (_, remoteType, _) \<Rightarrow> remoteType = ''Product'')
      | _ \<Rightarrow> Inl (TypeError ''obj.id.match is not a function''))"

fun filterProducts :: "obj list \<Rightarrow> error + obj list" where
  "filterProducts [] = Inr []"
| "filterProducts (ob # obs) =
     (case isProduct ob of
        Inl e \<Rightarrow> Inl e
      | Inr b \<Rightarrow>
          (case filterProducts obs of
             Inl e \<Rightarrow> Inl e
           | Inr ps \<Rightarrow> Inr (if b then ob # ps else ps)))"

definition nodeIdsOf :: "(jsval \<Rightarrow> string) option \<Rightarrow> obj list \<Rightarrow> error + jsval list" where
  "nodeIdsOf createNodeId' products =
     (case createNodeId' of
        None \<Rightarrow>
          if products = [] then Inr []
          else Inl (TypeError ''createNodeId is not a function'')
      | Some f \<Rightarrow> Inr (map (\<lambda>product. JStr (f (get_prop product ''id''))) products))"

definition incrementalProductsProcessor ::
  "(jsval \<Rightarrow> string) option \<Rightarrow> obj list \<Rightarrow> (obj \<Rightarrow> error + obj) \<Rightarrow> pluginOptions \<Rightarrow> host
     \<Rightarrow> error + (host \<times> (error + obj) list)" where
  "incrementalProductsProcessor createNodeId' objects builder options h =
     (let prefix = (case typePrefix options of None \<Rightarrow> [] | Some p \<Rightarrow> p) in
      case filterProducts objects of
        Inl e \<Rightarrow> Inl e
      | Inr products \<Rightarrow>
          (case nodeIdsOf createNodeId' products of
             Inl e \<Rightarrow> Inl e
           | Inr nodeIds \<Rightarrow>
               (let variantsToDelete =
                      filter (\<lambda>node. list_ex (\<lambda>i. sameValueZero i (get_prop node ''productId''))
                                       nodeIds)
                        (getNodesByType h (prefix @ ''ShopifyProductVariant''));
                    h1 = foldl (\<lambda>h variant. deleteNode variant h) h variantsToDelete;
                    variantIds = map (\<lambda>v. get_prop v ''id'') variantsToDelete;
                    h2 = foldl (\<lambda>h metafield.
                                  if list_ex (\<lambda>i. sameValueZero i
                                                     (get_prop metafield ''productVariantId''))
                                       variantIds
                                  then deleteNode metafield h else h)
                               h1 (getNodesByType h1 (prefix @ ''ShopifyProductVariantMetafield''))
                in Inr (h2, map builder objects))))"


section \<open>The requests of a pass, one by one\<close>










section \<open>Example surroundings\<close>

text \<open>Concrete collaborators, on which the definitions can be run.\<close>

definition demo_createNodeId :: "jsval \<Rightarrow> string" where
  "demo_createNodeId v = (case v of JStr s \<Rightarrow> ''node:'' @ s | _ \<Rightarrow> ''node:'')"

definition demo_api :: gatsbyApi where
  "demo_api =
     \<lparr>createNodeId = demo_createNodeId,
      createContentDigest = (\<lambda>ob. ''digest''),
      createRemoteFileNode = (\<lambda>u p. Inr ''file'')\<rparr>"

definition demo_options :: pluginOptions where
  "demo_options = \<lparr>downloadImages = False, shopifyConnections = [], typePrefix = None\<rparr>"

definition demo_helpers :: nodeHelpers where
  "demo_helpers = \<lparr>createNodeFactory = (\<lambda>ty ob. Inr ob)\<rparr>"

definition demo_product :: obj where
  "demo_product = [(''id'', JStr ''gid://shopify/Product/42'')]"

definition demo_product_node :: obj where
  "demo_product_node =
     [(''id'', JStr ''node:gid://shopify/Product/42''),
      (''shopifyId'', JStr ''gid://shopify/Product/42''),
      (''internal'', JObj [(''type'', JStr ''ShopifyProduct''),
                          (''contentDigest'', JStr ''digest'')])]"

definition demo_variant :: obj where
  "demo_variant =
     [(''id'', JStr ''gid://shopify/ProductVariant/7''),
      (''__parentId'', JStr ''gid://shopify/Product/42'')]"

definition demo_variant_node :: obj where
  "demo_variant_node =
     [(''id'', JStr ''node:gid://shopify/ProductVariant/7''),
      (''productId'', JStr ''gid://shopify/Product/42''),
      (''shopifyId'', JStr ''gid://shopify/ProductVariant/7''),
      (''internal'', JObj [(''type'', JStr ''ShopifyProductVariant''),
                          (''contentDigest'', JStr ''digest'')])]"

definition demo_lineItem :: obj where
  "demo_lineItem =
     [(''id'', JStr ''gid://shopify/LineItem/1''),
      (''__parentId'', JStr ''gid://shopify/Product/2''),
      (''product'', JObj [(''id'', JStr ''gid://shopify/Product/3'')])]"

definition demo_lineItem_node :: obj where
  "demo_lineItem_node =
     [(''id'', JStr ''node:gid://shopify/LineItem/1''),
      (''productId'', JStr ''gid://shopify/Product/3''),
      (''shopifyId'', JStr ''gid://shopify/LineItem/1''),
      (''internal'', JObj [(''type'', JStr ''ShopifyLineItem''),
                          (''contentDigest'', JStr ''digest'')])]"

definition demo_operation :: "string \<Rightarrow> string \<Rightarrow> operation" where
  "demo_operation st n = \<lparr>status = st, objectCount = n, url = ''https://files.example/result.jsonl''\<rparr>"

definition demo_polls_failed :: "nat \<Rightarrow> operation" where
  "demo_polls_failed i =
     (if i < 2 then demo_operation ''RUNNING'' ''0'' else demo_operation ''FAILED'' ''0'')"

definition demo_polls_completed :: "string \<Rightarrow> nat \<Rightarrow> operation" where
  "demo_polls_completed n i =
     (if i < 1 then demo_operation ''RUNNING'' ''0'' else demo_operation ''COMPLETED'' n)"

definition demo_polls_canceled :: "nat \<Rightarrow> operation" where
  "demo_polls_canceled i =
     (if i < 1 then demo_operation ''RUNNING'' ''0'' else demo_operation ''CANCELED'' ''0'')"

definition demo_current :: "nat \<Rightarrow> currentBulkOperation option" where
  "demo_current i =
     (if i < 3 then Some \<lparr>cbo_id = ''gid://shopify/BulkOperation/1'', cbo_status = ''RUNNING''\<rparr>
      else Some \<lparr>cbo_id = ''gid://shopify/BulkOperation/1'', cbo_status = ''CANCELED''\<rparr>)"

definition demo_running :: "nat \<Rightarrow> currentBulkOperation option" where
  "demo_running i = Some \<lparr>cbo_id = ''gid://shopify/BulkOperation/1'', cbo_status = ''RUNNING''\<rparr>"

definition demo_JSON_parse :: "string \<Rightarrow> obj option" where
  "demo_JSON_parse l =
     (if l = ''{\"id\":\"gid://shopify/Product/42\"}'' then Some demo_product else None)"

definition demo_remote :: "(nat \<Rightarrow> currentBulkOperation option) \<Rightarrow> (nat \<Rightarrow> operation) \<Rightarrow> remote" where
  "demo_remote cur polls =
     \<lparr>currentOperation = cur,
      execute = (\<lambda>q. \<lparr>userErrors = [], bulkOperation_id = ''gid://shopify/BulkOperation/2''\<rparr>),
      operationById = (\<lambda>i. polls),
      fetch = (\<lambda>u. [''{\"id\":\"gid://shopify/Product/42\"}'']),
      JSON_parse = demo_JSON_parse\<rparr>"

definition demo_host :: host where
  "demo_host = \<lparr>nodes = [], trace = []\<rparr>"

definition demo_env :: "(nat \<Rightarrow> operation) \<Rightarrow> env" where
  "demo_env polls =
     \<lparr>remote = (\<lambda>c. demo_remote demo_current polls),
      isoFormat = (\<lambda>t. ''2020-09-13T12:26:40.000Z''),
      fetchDestroyEventsSince = (\<lambda>t. [])\<rparr>"

definition demo_unbuildable :: obj where
  "demo_unbuildable = [(''title'', JStr ''Mug'')]"

definition demo_env_unbuildable :: env where
  "demo_env_unbuildable =
     \<lparr>remote = (\<lambda>c. (demo_remote demo_current (demo_polls_completed ''1''))
                       \<lparr>JSON_parse := (\<lambda>l. Some demo_unbuildable)\<rparr>),
      isoFormat = (\<lambda>t. ''2020-09-13T12:26:40.000Z''),
      fetchDestroyEventsSince = (\<lambda>t. [])\<rparr>"

definition demo_stored_product :: obj where
  "demo_stored_product =
     [(''id'', JStr ''node-1''), (''shopifyId'', JStr ''42''),
      (''internal'', JObj [(''type'', JStr ''ShopifyProduct'')])]"

definition demo_stored_variant :: obj where
  "demo_stored_variant =
     [(''id'', JStr ''node-2''), (''shopifyId'', JStr ''42''),
      (''productId'', JStr ''node:gid://shopify/Product/42''),
      (''internal'', JObj [(''type'', JStr ''ShopifyProductVariant'')])]"

definition demo_stored_metafield :: obj where
  "demo_stored_metafield =
     [(''id'', JStr ''node-3''), (''shopifyId'', JStr ''9''),
      (''productVariantId'', JStr ''node-2''),
      (''internal'', JObj [(''type'', JStr ''ShopifyProductVariantMetafield'')])]"

definition demo_store :: host where
  "demo_store =
     \<lparr>nodes = [demo_stored_product, demo_stored_variant, demo_stored_metafield], trace = []\<rparr>"

definition demo_event :: event where
  "demo_event = \<lparr>subject_id = 42, subject_type = ''Product''\<rparr>"

definition demo_child_of_Shopify :: obj where
  "demo_child_of_Shopify =
     [(''id'', JStr ''gid://shopify/Metafield/7''),
      (''__parentId'', JStr ''gid://shopify/Shopify/42'')]"

definition demo_child_of_Shopify_node :: obj where
  "demo_child_of_Shopify_node =
     [(''id'', JStr ''node:gid://shopify/Metafield/7''),
      (''shopifyId'', JStr ''gid://shopify/Metafield/7''),
      (''internal'', JObj [(''type'', JStr ''ShopifyMetafield''),
                          (''contentDigest'', JStr ''digest'')])]"

definition demo_child_of_parent :: obj where
  "demo_child_of_parent =
     [(''id'', JStr ''gid://shopify/Metafield/7''),
      (''__parentId'', JStr ''gid://shopify/__parent/42'')]"

definition demo_child_of_parent_node :: obj where
  "demo_child_of_parent_node =
     [(''id'', JStr ''node:gid://shopify/Metafield/7''),
      (''shopifyId'', JStr ''gid://shopify/Metafield/7''),
      (''internal'', JObj [(''type'', JStr ''ShopifyMetafield''),
                          (''contentDigest'', JStr ''digest'')])]"


definition demo_metafield :: obj where
  "demo_metafield =
     [(''id'', JStr ''gid://shopify/Metafield/9''),
      (''__parentId'', JStr ''gid://shopify/ProductVariant/7'')]"

definition demo_metafield_node :: obj where
  "demo_metafield_node =
     [(''id'', JStr ''node:gid://shopify/Metafield/9''),
      (''productVariantId'', JStr ''gid://shopify/ProductVariant/7''),
      (''shopifyId'', JStr ''gid://shopify/Metafield/9''),
      (''internal'', JObj [(''type'', JStr ''ShopifyMetafield''),
                          (''contentDigest'', JStr ''digest'')])]"

definition demo_built_store :: host where
  "demo_built_store =
     \<lparr>nodes = [demo_product_node, demo_variant_node, demo_metafield_node], trace = []\<rparr>"

definition demo_gid_createNodeId :: "jsval \<Rightarrow> string" where
  "demo_gid_createNodeId v = (case v of JStr s \<Rightarrow> s | _ \<Rightarrow> [])"








section \<open>Properties of objects and of the pattern\<close>

lemma get_set_prop:
  "get_prop (set_prop ob k v) k' = (if k' = k then v else get_prop ob k')"
  by (simp add: get_prop_def set_prop_def update_conv')

lemma get_delete_prop:
  "get_prop (delete_prop ob k) k' = (if k' = k then JUndefined else get_prop ob k')"
  by (simp add: get_prop_def delete_prop_def delete_conv')

lemma has_set_prop: "has_prop (set_prop ob k v) k' = (k' = k \<or> has_prop ob k')"
  by (auto simp: has_prop_def set_prop_def update_keys simp del: set_map)

lemma has_delete_prop: "has_prop (delete_prop ob k) k' = (k' \<noteq> k \<and> has_prop ob k')"
  by (auto simp: has_prop_def delete_prop_def delete_keys simp del: set_map)

lemma get_prop_absent: "\<not> has_prop ob k \<Longrightarrow> get_prop ob k = JUndefined"
  by (simp add: has_prop_def get_prop_def map_of_eq_None_iff [THEN iffD2])

lemma pattern_match_full: "pattern_match s = Some (full, ty, lid) \<Longrightarrow> full = s"
  by (auto simp: pattern_match_def Let_def split: if_splits list.splits)

lemma pattern_match_type_nonempty: "pattern_match s = Some (full, ty, lid) \<Longrightarrow> ty \<noteq> []"
  by (auto simp: pattern_match_def Let_def split: if_splits list.splits)

lemma pattern_match_Nil: "pattern_match [] = None"
  by (simp add: pattern_match_def)

lemmas pattern_eval = pattern_match_def isWordChar_def isLineTerminator_def

lemmas builder_eval =
  buildNode_part_003_def attachParentId_def processorMap_def processor_LineItem_def
  processor_Product_def processor_ProductImage_def inheritedFailing_def
  lowerFirst_def toLowerCase_char_def get_prop_def set_prop_def delete_prop_def
  demo_api_def demo_options_def demo_createNodeId_def

lemma pattern_match_product_42:
  "pattern_match ''gid://shopify/Product/42'' =
     Some (''gid://shopify/Product/42'', ''Product'', ''42'')"
  by (simp add: pattern_eval)

lemma build_demo_product:
  "buildNode_part_003 demo_api demo_options demo_product = Inr demo_product_node"
  by (simp add: builder_eval pattern_eval demo_product_def demo_product_node_def)

lemma build_demo_variant:
  "buildNode_part_003 demo_api demo_options demo_variant = Inr demo_variant_node"
  by (simp add: builder_eval pattern_eval demo_variant_def demo_variant_node_def)

lemma build_demo_lineItem:
  "buildNode_part_003 demo_api demo_options demo_lineItem = Inr demo_lineItem_node"
  by (simp add: builder_eval pattern_eval demo_lineItem_def demo_lineItem_node_def)

lemma build_demo_child_of_Shopify:
  "buildNode_part_003 demo_api demo_options demo_child_of_Shopify =
     Inr demo_child_of_Shopify_node"
  by (simp add: builder_eval pattern_eval demo_child_of_Shopify_def
        demo_child_of_Shopify_node_def)

lemma build_demo_child_of_parent:
  "buildNode_part_003 demo_api demo_options demo_child_of_parent =
     Inr demo_child_of_parent_node"
  by (simp add: builder_eval pattern_eval demo_child_of_parent_def
        demo_child_of_parent_node_def)

section \<open>The record builder: identity and parent key\<close>

lemma idField_neq_id: "field @ ''Id'' \<noteq> ''id''"
  by (cases field rule: rev_cases) auto

lemma attachParentId_id:
  "attachParentId ob = Inr ob' \<Longrightarrow> get_prop ob' ''id'' = get_prop ob ''id''"
  by (auto simp: attachParentId_def Let_def get_set_prop get_delete_prop idField_neq_id
           split: if_splits jsval.splits option.splits)

lemma attachParentId_parent_key:
  assumes "attachParentId ob = Inr ob'"
    and "get_prop ob ''__parentId'' = JStr pid"
    and "pattern_match pid = Some (full, parentType, plid)"
    and "lowerFirst parentType @ ''Id'' \<noteq> ''__parentId''"
  shows "get_prop ob' (lowerFirst parentType @ ''Id'') = JStr pid"
    and "has_prop ob' (lowerFirst parentType @ ''Id'')"
  using assms pattern_match_full [OF assms(3)]
  by (auto simp: attachParentId_def Let_def get_set_prop get_delete_prop has_set_prop
        has_delete_prop pattern_match_Nil split: if_splits)

lemma attachParentId_removes:
  "attachParentId ob = Inr ob' \<Longrightarrow> has_prop ob ''__parentId'' \<Longrightarrow>
     truthy (get_prop ob ''__parentId'') \<Longrightarrow> \<not> has_prop ob' ''__parentId''"
  by (auto simp: attachParentId_def Let_def has_delete_prop
           split: if_splits jsval.splits option.splits)

lemma processorMap_keeps:
  assumes "processorMap ty node api options = Inr node'"
    and "k \<noteq> ''productId''" "k \<noteq> ''product''" "k \<noteq> ''localFile''" "k \<noteq> ''featuredImage''"
  shows "get_prop node' k = get_prop node k" and "has_prop node' k = has_prop node k"
  using assms
  by (auto simp: processorMap_def processor_LineItem_def processor_ProductImage_def
        processor_Product_def Let_def get_set_prop get_delete_prop has_set_prop has_delete_prop
        split: if_splits jsval.splits sum.splits)

lemma processorMap_keeps_productId:
  assumes "processorMap ty node api options = Inr node'" and "ty \<noteq> ''LineItem''"
  shows "get_prop node' ''productId'' = get_prop node ''productId''"
    and "has_prop node' ''productId'' = has_prop node ''productId''"
  using assms
  by (auto simp: processorMap_def processor_ProductImage_def
        processor_Product_def Let_def get_set_prop has_set_prop
        split: if_splits jsval.splits sum.splits)

lemma buildNode_part_003_Inr:
  assumes "buildNode_part_003 api options result = Inr node"
  obtains gid full remoteType localId result' where
    "get_prop result ''id'' = JStr gid"
    "pattern_match gid = Some (full, remoteType, localId)"
    "attachParentId result = Inr result'"
    "processorMap remoteType
       (set_prop
          (set_prop (set_prop result' ''shopifyId'' (get_prop result' ''id''))
             ''id'' (JStr (createNodeId api (get_prop result' ''id''))))
          ''internal''
          (JObj [(''type'', JStr (''Shopify'' @ remoteType)),
                 (''contentDigest'', JStr (createContentDigest api result'))]))
       api options = Inr node"
  using assms
  by (auto simp: buildNode_part_003_def Let_def split: jsval.splits option.splits sum.splits)


lemma buildNode_part_003_fields:
  assumes "get_prop result ''id'' = JStr gid"
    and "pattern_match gid = Some (full, remoteType, localId)"
    and "buildNode_part_003 api options result = Inr node"
  shows "get_prop node ''shopifyId'' = JStr gid \<and>
         internal_type node = JStr (''Shopify'' @ remoteType) \<and>
         get_prop node ''id'' = JStr (createNodeId api (JStr gid))"
proof -
  from assms(3) obtain gid' full' ty' lid' result' where
    r: "get_prop result ''id'' = JStr gid'"
    and m: "pattern_match gid' = Some (full', ty', lid')"
    and a: "attachParentId result = Inr result'"
    and p: "processorMap ty'
       (set_prop
          (set_prop (set_prop result' ''shopifyId'' (get_prop result' ''id''))
             ''id'' (JStr (createNodeId api (get_prop result' ''id''))))
          ''internal''
          (JObj [(''type'', JStr (''Shopify'' @ ty')),
                 (''contentDigest'', JStr (createContentDigest api result'))]))
       api options = Inr node"
    by (rule buildNode_part_003_Inr)
  from r assms(1) have g: "gid' = gid" by simp
  with m assms(2) have t: "ty' = remoteType" by simp
  from a r g have i: "get_prop result' ''id'' = JStr gid"
    by (simp add: attachParentId_id)
  have "get_prop node ''shopifyId'' = JStr gid"
    using processorMap_keeps(1) [OF p, of "''shopifyId''"] i by (simp add: get_set_prop)
  moreover have "get_prop node ''internal'' =
      JObj [(''type'', JStr (''Shopify'' @ remoteType)),
            (''contentDigest'', JStr (createContentDigest api result'))]"
    using processorMap_keeps(1) [OF p, of "''internal''"] t by (simp add: get_set_prop)
  then have "internal_type node = JStr (''Shopify'' @ remoteType)"
    by (simp add: internal_type_def get_prop_def)
  moreover have "get_prop node ''id'' = JStr (createNodeId api (JStr gid))"
    using processorMap_keeps(1) [OF p, of "''id''"] i by (simp add: get_set_prop)
  ultimately show ?thesis by simp
qed

text \<open>
  C1, as amended. For a raw record whose global identifier matches the pattern
  \<^verbatim>\<open>gid://shopify/<Type>/<id>\<close>, the node that \<^verbatim>\<open>buildNode\<close> returns has \<^verbatim>\<open>shopifyId\<close> equal
  to the full global identifier of the record, \<^verbatim>\<open>internal.type\<close> equal to \<^verbatim>\<open>Shopify\<close>
  followed by the remote type, and \<^verbatim>\<open>id\<close> equal to the host's node id of the global
  identifier.
\<close>

theorem buildNode_identity:
  assumes "get_prop result ''id'' = JStr gid"
    and "pattern_match gid = Some (full, remoteType, localId)"
    and "buildNode_part_003 api options result = Inr node"
  shows "get_prop node ''shopifyId'' = JStr gid \<and>
         internal_type node = JStr (''Shopify'' @ remoteType) \<and>
         get_prop node ''id'' = JStr (createNodeId api (JStr gid))"
  by (rule buildNode_part_003_fields [OF assms])

theorem buildNode_identity_witness:
  "get_prop demo_product ''id'' = JStr ''gid://shopify/Product/42'' \<and>
   pattern_match ''gid://shopify/Product/42'' =
     Some (''gid://shopify/Product/42'', ''Product'', ''42'') \<and>
   buildNode_part_003 demo_api demo_options demo_product = Inr demo_product_node \<and>
   get_prop demo_product_node ''shopifyId'' = JStr ''gid://shopify/Product/42'' \<and>
   internal_type demo_product_node = JStr ''ShopifyProduct'' \<and>
   get_prop demo_product_node ''id'' = JStr ''node:gid://shopify/Product/42''"
proof -
  have h: "get_prop demo_product ''id'' = JStr ''gid://shopify/Product/42''"
    by (simp add: demo_product_def get_prop_def)
  have c: "createNodeId demo_api (JStr ''gid://shopify/Product/42'') =
      ''node:gid://shopify/Product/42''"
    by (simp add: demo_api_def demo_createNodeId_def)
  show ?thesis
    using h c buildNode_identity [OF h pattern_match_product_42 build_demo_product]
      pattern_match_product_42 build_demo_product
    by simp
qed

text \<open>
  C1 as stated fails: the record with identifier \<^verbatim>\<open>gid://shopify/Product/42\<close> has local
  id \<^verbatim>\<open>42\<close>, and the node built from it has another \<^verbatim>\<open>shopifyId\<close>.
\<close>

theorem buildNode_shopifyId_counterexample:
  "get_prop demo_product ''id'' = JStr ''gid://shopify/Product/42'' \<and>
   pattern_match ''gid://shopify/Product/42'' =
     Some (''gid://shopify/Product/42'', ''Product'', ''42'') \<and>
   buildNode_part_003 demo_api demo_options demo_product = Inr demo_product_node \<and>
   get_prop demo_product_node ''shopifyId'' \<noteq> JStr ''42''"
  by (simp add: pattern_match_product_42 build_demo_product)
     (simp add: demo_product_def demo_product_node_def get_prop_def)

text \<open>
  C4, as amended. For a raw record whose \<^verbatim>\<open>__parentId\<close> matches the pattern with parent
  type \<open>parentType\<close>, the built node has no \<^verbatim>\<open>__parentId\<close> field, whatever the parent
  type. Let \<open>key\<close> be \<open>parentType\<close> with its first letter in lower case, followed by
  \<^verbatim>\<open>Id\<close>. The built node has the field \<open>key\<close>, and its value is the full global identifier
  of the parent, unless \<open>key\<close> is \<^verbatim>\<open>__parentId\<close> or \<^verbatim>\<open>shopifyId\<close>, or the record is a
  \<^verbatim>\<open>LineItem\<close> and \<open>key\<close> is \<^verbatim>\<open>productId\<close>.
\<close>

theorem buildNode_parent_key:
  assumes "get_prop result ''id'' = JStr gid"
    and "pattern_match gid = Some (full, remoteType, localId)"
    and "get_prop result ''__parentId'' = JStr pid"
    and "pattern_match pid = Some (pfull, parentType, plid)"
    and "buildNode_part_003 api options result = Inr node"
    and "key = lowerFirst parentType @ ''Id''"
  shows "\<not> has_prop node ''__parentId'' \<and>
         (key \<noteq> ''__parentId'' \<and> key \<noteq> ''shopifyId'' \<and>
          \<not> (remoteType = ''LineItem'' \<and> key = ''productId'') \<longrightarrow>
          get_prop node key = JStr pid \<and> has_prop node key)"
proof -
  from assms(5) obtain gid' full' ty' lid' result' where
    r: "get_prop result ''id'' = JStr gid'"
    and m: "pattern_match gid' = Some (full', ty', lid')"
    and a: "attachParentId result = Inr result'"
    and p: "processorMap ty'
       (set_prop
          (set_prop (set_prop result' ''shopifyId'' (get_prop result' ''id''))
             ''id'' (JStr (createNodeId api (get_prop result' ''id''))))
          ''internal''
          (JObj [(''type'', JStr (''Shopify'' @ ty')),
                 (''contentDigest'', JStr (createContentDigest api result'))]))
       api options = Inr node"
    by (rule buildNode_part_003_Inr)
  from r m assms(1,2) have t: "ty' = remoteType" by simp
  have k: "key \<noteq> ''id''" "key \<noteq> ''internal''" "key \<noteq> ''product''"
    "key \<noteq> ''localFile''" "key \<noteq> ''featuredImage''"
    using assms(6) by (auto simp: idField_neq_id dest: arg_cong [where f = last])
  have pres: "has_prop result ''__parentId''" "truthy (get_prop result ''__parentId'')"
    using assms(3,4) get_prop_absent [of result "''__parentId''"]
    by (auto simp: pattern_match_Nil)
  have gone: "\<not> has_prop result' ''__parentId''"
    using attachParentId_removes [OF a pres] .
  have n1: "\<not> has_prop node ''__parentId''"
    using processorMap_keeps(2) [OF p, of "''__parentId''"] gone
    by (simp add: has_set_prop)
  have n2: "get_prop node key = JStr pid \<and> has_prop node key"
    if x: "key \<noteq> ''__parentId''" "key \<noteq> ''shopifyId''"
      "\<not> (remoteType = ''LineItem'' \<and> key = ''productId'')"
  proof -
    have v: "get_prop result' key = JStr pid" and h: "has_prop result' key"
      using attachParentId_parent_key [OF a assms(3,4)] assms(6) x(1) by simp_all
    show ?thesis
    proof (cases "key = ''productId''")
      case True
      with x(3) t have "ty' \<noteq> ''LineItem''" by simp
      from processorMap_keeps_productId [OF p this] v h True k x(2)
      show ?thesis by (simp add: get_set_prop has_set_prop)
    next
      case False
      from processorMap_keeps [OF p False k(3,4,5)] v h k x(2)
      show ?thesis by (simp add: get_set_prop has_set_prop)
    qed
  qed
  from n1 n2 show ?thesis by blast
qed

theorem buildNode_parent_key_witness:
  "get_prop demo_variant ''id'' = JStr ''gid://shopify/ProductVariant/7'' \<and>
   get_prop demo_variant ''__parentId'' = JStr ''gid://shopify/Product/42'' \<and>
   buildNode_part_003 demo_api demo_options demo_variant = Inr demo_variant_node \<and>
   lowerFirst ''Product'' @ ''Id'' = ''productId'' \<and>
   get_prop demo_variant_node ''productId'' = JStr ''gid://shopify/Product/42'' \<and>
   has_prop demo_variant_node ''productId'' \<and>
   \<not> has_prop demo_variant_node ''__parentId''"
proof -
  have h1: "get_prop demo_variant ''id'' = JStr ''gid://shopify/ProductVariant/7''"
    and h2: "get_prop demo_variant ''__parentId'' = JStr ''gid://shopify/Product/42''"
    by (simp_all add: demo_variant_def get_prop_def)
  have h3: "pattern_match ''gid://shopify/ProductVariant/7'' =
      Some (''gid://shopify/ProductVariant/7'', ''ProductVariant'', ''7'')"
    by (simp add: pattern_eval)
  have h4: "lowerFirst ''Product'' = ''product''"
    by (simp add: lowerFirst_def toLowerCase_char_def)
  show ?thesis
    using buildNode_parent_key [OF h1 h3 h2 pattern_match_product_42 build_demo_variant refl]
      h1 h2 build_demo_variant
    by (simp add: h4)
qed

text \<open>
  C4 as stated fails. A line item whose \<^verbatim>\<open>__parentId\<close> names a product is built into a
  node whose \<^verbatim>\<open>productId\<close> is the identifier of the product it embeds, not of the parent.
  A record whose parent has the type \<^verbatim>\<open>Shopify\<close> is built into a node whose \<^verbatim>\<open>shopifyId\<close>
  is the record's own identifier. A record whose parent has the type \<^verbatim>\<open>__parent\<close> is
  built into a node without the field \<^verbatim>\<open>__parentId\<close>, which is here the derived name.
\<close>

theorem buildNode_parent_key_counterexample:
  "get_prop demo_lineItem ''__parentId'' = JStr ''gid://shopify/Product/2'' \<and>
   pattern_match ''gid://shopify/Product/2'' = Some (''gid://shopify/Product/2'', ''Product'', ''2'') \<and>
   lowerFirst ''Product'' @ ''Id'' = ''productId'' \<and>
   buildNode_part_003 demo_api demo_options demo_lineItem = Inr demo_lineItem_node \<and>
   get_prop demo_lineItem_node ''productId'' \<noteq> JStr ''gid://shopify/Product/2'' \<and>
   get_prop demo_child_of_Shopify ''__parentId'' = JStr ''gid://shopify/Shopify/42'' \<and>
   pattern_match ''gid://shopify/Shopify/42'' =
     Some (''gid://shopify/Shopify/42'', ''Shopify'', ''42'') \<and>
   lowerFirst ''Shopify'' @ ''Id'' = ''shopifyId'' \<and>
   buildNode_part_003 demo_api demo_options demo_child_of_Shopify =
     Inr demo_child_of_Shopify_node \<and>
   get_prop demo_child_of_Shopify_node ''shopifyId'' \<noteq> JStr ''gid://shopify/Shopify/42'' \<and>
   get_prop demo_child_of_parent ''__parentId'' = JStr ''gid://shopify/__parent/42'' \<and>
   pattern_match ''gid://shopify/__parent/42'' =
     Some (''gid://shopify/__parent/42'', ''__parent'', ''42'') \<and>
   lowerFirst ''__parent'' @ ''Id'' = ''__parentId'' \<and>
   buildNode_part_003 demo_api demo_options demo_child_of_parent =
     Inr demo_child_of_parent_node \<and>
   has_prop demo_child_of_parent_node ''__parentId'' = False"
proof -
  have a: "get_prop demo_lineItem ''__parentId'' = JStr ''gid://shopify/Product/2''"
    "get_prop demo_lineItem_node ''productId'' \<noteq> JStr ''gid://shopify/Product/2''"
    by (simp_all add: demo_lineItem_def demo_lineItem_node_def get_prop_def)
  have b: "get_prop demo_child_of_Shopify ''__parentId'' = JStr ''gid://shopify/Shopify/42''"
    "get_prop demo_child_of_Shopify_node ''shopifyId'' \<noteq> JStr ''gid://shopify/Shopify/42''"
    by (simp_all add: demo_child_of_Shopify_def demo_child_of_Shopify_node_def get_prop_def)
  have c: "get_prop demo_child_of_parent ''__parentId'' = JStr ''gid://shopify/__parent/42''"
    "has_prop demo_child_of_parent_node ''__parentId'' = False"
    by (simp_all add: demo_child_of_parent_def demo_child_of_parent_node_def get_prop_def
          has_prop_def)
  have m: "pattern_match ''gid://shopify/Product/2'' =
      Some (''gid://shopify/Product/2'', ''Product'', ''2'')"
    "pattern_match ''gid://shopify/Shopify/42'' =
      Some (''gid://shopify/Shopify/42'', ''Shopify'', ''42'')"
    "pattern_match ''gid://shopify/__parent/42'' =
      Some (''gid://shopify/__parent/42'', ''__parent'', ''42'')"
    by (simp_all add: pattern_eval)
  have l: "lowerFirst ''Product'' @ ''Id'' = ''productId''"
    "lowerFirst ''Shopify'' @ ''Id'' = ''shopifyId''"
    "lowerFirst ''__parent'' @ ''Id'' = ''__parentId''"
    by (simp_all add: lowerFirst_def toLowerCase_char_def)
  from a b c m l build_demo_lineItem build_demo_child_of_Shopify build_demo_child_of_parent
  show ?thesis by simp
qed

text \<open>
  C10. For a raw record that has no \<^verbatim>\<open>id\<close> field, \<^verbatim>\<open>buildNode\<close> fails with the error
  \<^verbatim>\<open>Cannot create a node without type information\<close>; no node comes out of it, and nothing
  is handed to \<^verbatim>\<open>createNode\<close> for it.
\<close>

theorem buildNode_without_id:
  assumes "\<not> has_prop ob ''id''"
  shows "buildNode helpers api options ob =
           Inl (Error ''Cannot create a node without type information'') \<and>
         createNodes [buildNode helpers api options ob] = []"
  using get_prop_absent [OF assms] by (simp add: buildNode_def)

theorem buildNode_without_id_witness:
  "\<not> has_prop [(''title'', JStr ''Shirt'')] ''id'' \<and>
   buildNode demo_helpers demo_api demo_options [(''title'', JStr ''Shirt'')] =
     Inl (Error ''Cannot create a node without type information'') \<and>
   createNodes [buildNode demo_helpers demo_api demo_options [(''title'', JStr ''Shirt'')]] = []"
proof -
  have h: "\<not> has_prop [(''title'', JStr ''Shirt'')] ''id''"
    by (simp add: has_prop_def)
  show ?thesis
    using h buildNode_without_id [OF h, of demo_helpers demo_api demo_options] by simp
qed

text \<open>
  In \<^verbatim>\<open>buildFromId\<close> the name \<^verbatim>\<open>shopifyId\<close> is bound to the first element of the match
  array, the whole identifier, and that is the \<^verbatim>\<open>id\<close> the factory is given.
\<close>

lemma buildFromId_factory_argument:
  assumes "get_prop ob ''id'' = JStr gid"
    and "pattern_match gid = Some (full, remoteType, localId)"
    and "attachParentId ob = Inr ob'"
  shows "buildFromId helpers api options ob =
     (case createNodeFactory helpers (JStr remoteType) (set_prop ob' ''id'' (JStr gid)) of
        Inl e \<Rightarrow> Inl e
      | Inr node \<Rightarrow> processorMap remoteType node api options)"
  using assms pattern_match_full [OF assms(2)]
  by (simp add: buildFromId_def Let_def split: sum.splits)


section \<open>The job poller: when the loops stop\<close>

lemma completedOperation_stop:
  "pollSettled (polls i) \<Longrightarrow>
   completedOperation polls interval i w = Some (pollOutcome (polls i), i, w)"
  by (subst completedOperation.simps) (auto simp: pollSettled_def pollOutcome_def Let_def)

lemma completedOperation_step:
  "\<not> pollSettled (polls i) \<Longrightarrow>
   completedOperation polls interval i w =
   completedOperation polls interval (Suc i) (w + interval)"
  by (subst completedOperation.simps) (auto simp: pollSettled_def Let_def)

lemma completedOperation_run:
  "(\<forall>j. i \<le> j \<and> j < i + n \<longrightarrow> \<not> pollSettled (polls j)) \<Longrightarrow>
   completedOperation polls interval i w =
   completedOperation polls interval (i + n) (w + interval * n)"
proof (induction n arbitrary: i w)
  case 0
  show ?case by simp
next
  case (Suc n)
  have "completedOperation polls interval i w =
        completedOperation polls interval (Suc i) (w + interval)"
    using Suc.prems by (intro completedOperation_step) simp
  also have "\<dots> = completedOperation polls interval (Suc i + n) (w + interval + interval * n)"
    using Suc.prems by (intro Suc.IH) simp
  finally show ?case by (simp add: algebra_simps)
qed

lemma completedOperation_Some:
  assumes "completedOperation polls interval i w = Some r"
  shows "\<exists>n. (\<forall>j. i \<le> j \<and> j < i + n \<longrightarrow> \<not> pollSettled (polls j)) \<and>
       pollSettled (polls (i + n)) \<and>
       r = (pollOutcome (polls (i + n)), i + n, w + interval * n)"
proof (rule completedOperation.raw_induct
    [where P = "\<lambda>polls interval i w r.
       \<exists>n. (\<forall>j. i \<le> j \<and> j < i + n \<longrightarrow> \<not> pollSettled (polls j)) \<and>
           pollSettled (polls (i + n)) \<and>
           r = (pollOutcome (polls (i + n)), i + n, w + interval * n)", OF _ assms],
    goal_cases)
  case (1 f polls interval i w r)
  show ?case
  proof (cases "pollSettled (polls i)")
    case True
    with 1(2) have "r = (pollOutcome (polls i), i, w)"
      by (auto simp: pollSettled_def pollOutcome_def Let_def split: if_splits)
    with True show ?thesis by (intro exI [of _ 0]) auto
  next
    case False
    with 1(2) have "f polls interval (Suc i) (w + interval) = Some r"
      by (auto simp: pollSettled_def Let_def split: if_splits)
    from 1(1) [OF this] obtain n where
      n: "\<forall>j. Suc i \<le> j \<and> j < Suc i + n \<longrightarrow> \<not> pollSettled (polls j)"
         "pollSettled (polls (Suc i + n))"
         "r = (pollOutcome (polls (Suc i + n)), Suc i + n, w + interval + interval * n)"
      by blast
    have "\<forall>j. i \<le> j \<and> j < i + Suc n \<longrightarrow> \<not> pollSettled (polls j)"
    proof (intro allI impI)
      fix j assume "i \<le> j \<and> j < i + Suc n"
      then have "j = i \<or> (Suc i \<le> j \<and> j < Suc i + n)" by arith
      with False n(1) show "\<not> pollSettled (polls j)" by blast
    qed
    with n(2,3) show ?thesis
      by (intro exI [of _ "Suc n"]) (simp add: algebra_simps)
  qed
qed

lemma completedOperation_iff:
  "completedOperation polls interval 0 0 = Some (res, k, w) \<longleftrightarrow>
     pollSettled (polls k) \<and> (\<forall>j<k. \<not> pollSettled (polls j)) \<and>
     res = pollOutcome (polls k) \<and> w = interval * k"
proof
  assume "completedOperation polls interval 0 0 = Some (res, k, w)"
  from completedOperation_Some [OF this] show
    "pollSettled (polls k) \<and> (\<forall>j<k. \<not> pollSettled (polls j)) \<and>
     res = pollOutcome (polls k) \<and> w = interval * k"
    by auto
next
  assume a: "pollSettled (polls k) \<and> (\<forall>j<k. \<not> pollSettled (polls j)) \<and>
     res = pollOutcome (polls k) \<and> w = interval * k"
  then have "completedOperation polls interval 0 0 =
      completedOperation polls interval (0 + k) (0 + interval * k)"
    by (intro completedOperation_run) simp
  with a show "completedOperation polls interval 0 0 = Some (res, k, w)"
    by (simp add: completedOperation_stop)
qed

lemma completedOperation_None:
  "(\<forall>j. \<not> pollSettled (polls j)) \<Longrightarrow> completedOperation polls interval i w = None"
proof (rule ccontr)
  assume a: "\<forall>j. \<not> pollSettled (polls j)"
    and "completedOperation polls interval i w \<noteq> None"
  then obtain r where "completedOperation polls interval i w = Some r" by auto
  from completedOperation_Some [OF this] a show False by blast
qed

lemma finishLastOperation_stop:
  "lastOperationFinished (cur i) \<Longrightarrow> finishLastOperation cur i w = Some (i, w)"
  by (subst finishLastOperation.simps)
     (auto simp: lastOperationFinished_def split: option.splits)

lemma finishLastOperation_step:
  "\<not> lastOperationFinished (cur i) \<Longrightarrow>
   finishLastOperation cur i w = finishLastOperation cur (Suc i) (w + 1000)"
  by (subst finishLastOperation.simps)
     (auto simp: lastOperationFinished_def split: option.splits)

lemma finishLastOperation_run:
  "(\<forall>j. i \<le> j \<and> j < i + n \<longrightarrow> \<not> lastOperationFinished (cur j)) \<Longrightarrow>
   finishLastOperation cur i w = finishLastOperation cur (i + n) (w + 1000 * n)"
proof (induction n arbitrary: i w)
  case 0
  show ?case by simp
next
  case (Suc n)
  have "finishLastOperation cur i w = finishLastOperation cur (Suc i) (w + 1000)"
    using Suc.prems by (intro finishLastOperation_step) simp
  also have "\<dots> = finishLastOperation cur (Suc i + n) (w + 1000 + 1000 * n)"
    using Suc.prems by (intro Suc.IH) simp
  finally show ?case by (simp add: algebra_simps)
qed

lemma finishLastOperation_Some:
  assumes "finishLastOperation cur i w = Some r"
  shows "\<exists>n. (\<forall>j. i \<le> j \<and> j < i + n \<longrightarrow> \<not> lastOperationFinished (cur j)) \<and>
       lastOperationFinished (cur (i + n)) \<and> r = (i + n, w + 1000 * n)"
proof (rule finishLastOperation.raw_induct
    [where P = "\<lambda>cur i w r.
       \<exists>n. (\<forall>j. i \<le> j \<and> j < i + n \<longrightarrow> \<not> lastOperationFinished (cur j)) \<and>
           lastOperationFinished (cur (i + n)) \<and> r = (i + n, w + 1000 * n)", OF _ assms],
    goal_cases)
  case (1 f cur i w r)
  show ?case
  proof (cases "lastOperationFinished (cur i)")
    case True
    with 1(2) have "r = (i, w)"
      by (auto simp: lastOperationFinished_def split: option.splits if_splits)
    with True show ?thesis by (intro exI [of _ 0]) auto
  next
    case False
    with 1(2) have "f cur (Suc i) (w + 1000) = Some r"
      by (auto simp: lastOperationFinished_def split: option.splits if_splits)
    from 1(1) [OF this] obtain n where
      n: "\<forall>j. Suc i \<le> j \<and> j < Suc i + n \<longrightarrow> \<not> lastOperationFinished (cur j)"
         "lastOperationFinished (cur (Suc i + n))"
         "r = (Suc i + n, w + 1000 + 1000 * n)"
      by blast
    have "\<forall>j. i \<le> j \<and> j < i + Suc n \<longrightarrow> \<not> lastOperationFinished (cur j)"
    proof (intro allI impI)
      fix j assume "i \<le> j \<and> j < i + Suc n"
      then have "j = i \<or> (Suc i \<le> j \<and> j < Suc i + n)" by arith
      with False n(1) show "\<not> lastOperationFinished (cur j)" by blast
    qed
    with n(2,3) show ?thesis
      by (intro exI [of _ "Suc n"]) (simp add: algebra_simps)
  qed
qed

lemma finishLastOperation_iff:
  "finishLastOperation cur 0 0 = Some (k, w) \<longleftrightarrow>
     lastOperationFinished (cur k) \<and> (\<forall>j<k. \<not> lastOperationFinished (cur j)) \<and> w = 1000 * k"
proof
  assume "finishLastOperation cur 0 0 = Some (k, w)"
  from finishLastOperation_Some [OF this] show
    "lastOperationFinished (cur k) \<and> (\<forall>j<k. \<not> lastOperationFinished (cur j)) \<and> w = 1000 * k"
    by auto
next
  assume a: "lastOperationFinished (cur k) \<and> (\<forall>j<k. \<not> lastOperationFinished (cur j)) \<and>
     w = 1000 * k"
  then have "finishLastOperation cur 0 0 = finishLastOperation cur (0 + k) (0 + 1000 * k)"
    by (intro finishLastOperation_run) simp
  with a show "finishLastOperation cur 0 0 = Some (k, w)"
    by (simp add: finishLastOperation_stop)
qed

lemma finishLastOperation_None:
  "(\<forall>j. \<not> lastOperationFinished (cur j)) \<Longrightarrow> finishLastOperation cur i w = None"
proof (rule ccontr)
  assume a: "\<forall>j. \<not> lastOperationFinished (cur j)"
    and "finishLastOperation cur i w \<noteq> None"
  then obtain r where "finishLastOperation cur i w = Some r" by auto
  from finishLastOperation_Some [OF this] a show False by blast
qed


lemma pollOutcome_Inl:
  "pollSettled p \<Longrightarrow> pollOutcome p = Inl e \<longleftrightarrow> e = OperationFailed p \<and> status p = ''FAILED''"
  by (auto simp: pollOutcome_def pollSettled_def)

lemma pollOutcome_Inr:
  "pollSettled p \<Longrightarrow> pollOutcome p = Inr resp \<longleftrightarrow> resp = p \<and> status p = ''COMPLETED''"
  by (auto simp: pollOutcome_def pollSettled_def)

lemma sourceFromOperation_failed:
  assumes "finishLastOperation (currentOperation r) 0 0 = Some d"
    and "userErrors (execute r q) = []"
    and "completedOperation (operationById r (bulkOperation_id (execute r q))) 1000 0 0 =
           Some (Inl e, k, w)"
  shows "sourceFromOperation builder r (Inr q) = Some ([], Inl e)"
  using assms by (simp add: sourceFromOperation_def Let_def)

lemma finishLastOperation_demo_current:
  "finishLastOperation demo_current 0 0 = Some (3, 3000)"
  unfolding finishLastOperation_iff
  by (simp add: lastOperationFinished_def demo_current_def finishedStatuses_def)

lemma finishLastOperation_demo_running:
  "finishLastOperation demo_running 0 0 = None"
  by (rule finishLastOperation_None)
     (simp add: lastOperationFinished_def demo_running_def finishedStatuses_def)

text \<open>
  C5. \<^verbatim>\<open>completedOperation\<close> fails, with the response of the last poll as the error,
  exactly when the first poll whose status is \<^verbatim>\<open>FAILED\<close> or \<^verbatim>\<open>COMPLETED\<close> says \<^verbatim>\<open>FAILED\<close>, and
  returns that response exactly when it says \<^verbatim>\<open>COMPLETED\<close>; it has then waited the
  interval once for every earlier poll. On any other status it waits the interval and
  polls again. When it fails, the pipeline fails with the same error and has handed no
  node to the host.
\<close>

theorem completedOperation_outcome:
  "(completedOperation polls interval 0 0 = Some (Inl e, k, w) \<longleftrightarrow>
      e = OperationFailed (polls k) \<and> status (polls k) = ''FAILED'' \<and>
      (\<forall>j<k. status (polls j) \<noteq> ''FAILED'' \<and> status (polls j) \<noteq> ''COMPLETED'') \<and>
      w = interval * k) \<and>
   (completedOperation polls interval 0 0 = Some (Inr resp, k, w) \<longleftrightarrow>
      resp = polls k \<and> status (polls k) = ''COMPLETED'' \<and>
      (\<forall>j<k. status (polls j) \<noteq> ''FAILED'' \<and> status (polls j) \<noteq> ''COMPLETED'') \<and>
      w = interval * k) \<and>
   (status (polls i) \<noteq> ''FAILED'' \<and> status (polls i) \<noteq> ''COMPLETED'' \<longrightarrow>
      completedOperation polls interval i v =
      completedOperation polls interval (Suc i) (v + interval)) \<and>
   (finishLastOperation (currentOperation r) 0 0 = Some d \<and>
    userErrors (execute r q) = [] \<and>
    completedOperation (operationById r (bulkOperation_id (execute r q))) 1000 0 0 =
      Some (Inl e', k', w') \<longrightarrow>
      sourceFromOperation builder r (Inr q) = Some ([], Inl e'))"
proof (intro conjI)
  show "completedOperation polls interval 0 0 = Some (Inl e, k, w) \<longleftrightarrow>
      e = OperationFailed (polls k) \<and> status (polls k) = ''FAILED'' \<and>
      (\<forall>j<k. status (polls j) \<noteq> ''FAILED'' \<and> status (polls j) \<noteq> ''COMPLETED'') \<and>
      w = interval * k"
    unfolding completedOperation_iff
    by (auto simp: pollOutcome_Inl) (auto simp: pollSettled_def pollOutcome_def)
  show "completedOperation polls interval 0 0 = Some (Inr resp, k, w) \<longleftrightarrow>
      resp = polls k \<and> status (polls k) = ''COMPLETED'' \<and>
      (\<forall>j<k. status (polls j) \<noteq> ''FAILED'' \<and> status (polls j) \<noteq> ''COMPLETED'') \<and>
      w = interval * k"
    unfolding completedOperation_iff
    by (auto simp: pollOutcome_Inr) (auto simp: pollSettled_def pollOutcome_def)
  show "status (polls i) \<noteq> ''FAILED'' \<and> status (polls i) \<noteq> ''COMPLETED'' \<longrightarrow>
      completedOperation polls interval i v =
      completedOperation polls interval (Suc i) (v + interval)"
    by (intro impI completedOperation_step) (simp add: pollSettled_def)
  show "finishLastOperation (currentOperation r) 0 0 = Some d \<and>
    userErrors (execute r q) = [] \<and>
    completedOperation (operationById r (bulkOperation_id (execute r q))) 1000 0 0 =
      Some (Inl e', k', w') \<longrightarrow>
      sourceFromOperation builder r (Inr q) = Some ([], Inl e')"
    by (auto intro: sourceFromOperation_failed)
qed

theorem completedOperation_outcome_witness:
  "completedOperation demo_polls_failed 1000 0 0 =
     Some (Inl (OperationFailed (demo_operation ''FAILED'' ''0'')), 2, 2000) \<and>
   completedOperation (demo_polls_completed ''3'') 1000 0 0 =
     Some (Inr (demo_operation ''COMPLETED'' ''3''), 1, 1000) \<and>
   completedOperation demo_polls_failed 1000 0 0 = completedOperation demo_polls_failed 1000 1 1000 \<and>
   sourceFromOperation (buildNode demo_helpers demo_api demo_options)
     (demo_remote demo_current demo_polls_failed) (Inr CREATE_PRODUCTS_OPERATION) =
     Some ([], Inl (OperationFailed (demo_operation ''FAILED'' ''0'')))"
proof -
  let ?e = "OperationFailed (demo_operation ''FAILED'' ''0'')"
  let ?r = "demo_remote demo_current demo_polls_failed"
  note f = completedOperation_outcome
    [of demo_polls_failed 1000 ?e 2 2000 _ 0 0 ?r "(3, 3000)" CREATE_PRODUCTS_OPERATION ?e 2 2000]
  note c = completedOperation_outcome
    [of "demo_polls_completed ''3''" 1000 _ 1 1000 "demo_operation ''COMPLETED'' ''3''"]
  have a: "completedOperation demo_polls_failed 1000 0 0 = Some (Inl ?e, 2, 2000)"
    using f [THEN conjunct1]
    by (simp add: demo_polls_failed_def demo_operation_def)
  have b: "completedOperation (demo_polls_completed ''3'') 1000 0 0 =
      Some (Inr (demo_operation ''COMPLETED'' ''3''), 1, 1000)"
    using c [THEN conjunct2, THEN conjunct1]
    by (simp add: demo_polls_completed_def demo_operation_def)
  have s: "completedOperation demo_polls_failed 1000 0 0 =
      completedOperation demo_polls_failed 1000 1 1000"
    using f [THEN conjunct2, THEN conjunct2, THEN conjunct1]
    by (simp add: demo_polls_failed_def demo_operation_def)
  have p: "sourceFromOperation (buildNode demo_helpers demo_api demo_options) ?r
      (Inr CREATE_PRODUCTS_OPERATION) = Some ([], Inl ?e)"
    using f [THEN conjunct2, THEN conjunct2, THEN conjunct2] a finishLastOperation_demo_current
    by (simp add: demo_remote_def)
  from a b s p show ?thesis by simp
qed

text \<open>
  C9. When no poll before the \<open>n\<close>-th says \<^verbatim>\<open>FAILED\<close> or \<^verbatim>\<open>COMPLETED\<close> and every poll from
  the \<open>n\<close>-th on says \<^verbatim>\<open>CANCELED\<close>, \<^verbatim>\<open>completedOperation\<close> has no result: after every poll it
  waits the interval and polls again. \<^verbatim>\<open>CANCELED\<close> is all the same one of the finished
  statuses of the drain phase.
\<close>

theorem completedOperation_canceled:
  assumes "\<forall>j<n. status (polls j) \<noteq> ''FAILED'' \<and> status (polls j) \<noteq> ''COMPLETED''"
    and "\<forall>j\<ge>n. status (polls j) = ''CANCELED''"
  shows "completedOperation polls interval 0 0 = None \<and>
         (\<forall>i w. completedOperation polls interval i w =
                completedOperation polls interval (Suc i) (w + interval)) \<and>
         ''CANCELED'' \<in> set finishedStatuses"
proof -
  have ns: "\<not> pollSettled (polls j)" for j
  proof (cases "j < n")
    case True
    with assms(1) show ?thesis by (simp add: pollSettled_def)
  next
    case False
    with assms(2) have "status (polls j) = ''CANCELED''" by simp
    then show ?thesis by (simp add: pollSettled_def)
  qed
  have "completedOperation polls interval 0 0 = None"
    by (intro completedOperation_None) (simp add: ns)
  moreover have "\<forall>i w. completedOperation polls interval i w =
                completedOperation polls interval (Suc i) (w + interval)"
    by (intro allI completedOperation_step ns)
  ultimately show ?thesis by (simp add: finishedStatuses_def)
qed

theorem completedOperation_canceled_witness:
  "status (demo_polls_canceled 0) = ''RUNNING'' \<and>
   status (demo_polls_canceled 1) = ''CANCELED'' \<and>
   status (demo_polls_canceled 2) = ''CANCELED'' \<and>
   completedOperation demo_polls_canceled 1000 0 0 = None \<and>
   completedOperation demo_polls_canceled 1000 5 5000 =
     completedOperation demo_polls_canceled 1000 6 6000"
proof -
  have h1: "\<forall>j<1. status (demo_polls_canceled j) \<noteq> ''FAILED'' \<and>
           status (demo_polls_canceled j) \<noteq> ''COMPLETED''"
    by (simp add: demo_polls_canceled_def demo_operation_def)
  have h2: "\<forall>j\<ge>1. status (demo_polls_canceled j) = ''CANCELED''"
    by (simp add: demo_polls_canceled_def demo_operation_def)
  note t = completedOperation_canceled [OF h1 h2, of 1000]
  have s: "completedOperation demo_polls_canceled 1000 5 5000 =
     completedOperation demo_polls_canceled 1000 6 6000"
    using t [THEN conjunct2, THEN conjunct1, rule_format, of 5 5000] by simp
  have n: "completedOperation demo_polls_canceled 1000 0 0 = None"
    using t [THEN conjunct1] .
  have st: "status (demo_polls_canceled 0) = ''RUNNING''"
    "status (demo_polls_canceled 1) = ''CANCELED''"
    "status (demo_polls_canceled 2) = ''CANCELED''"
    by (simp_all add: demo_polls_canceled_def demo_operation_def)
  from n s st show ?thesis by simp
qed


section \<open>The sync pass: what reaches the host and the cache\<close>

lemma traceExtends_refl: "traceExtends P h h"
  by (simp add: traceExtends_def)

lemma traceExtends_trans:
  "traceExtends P h h1 \<Longrightarrow> traceExtends P h1 h2 \<Longrightarrow> traceExtends P h h2"
  by (auto simp: traceExtends_def)

lemma traceExtends_foldl:
  "(\<And>h x. traceExtends P h (f h x)) \<Longrightarrow> traceExtends P h (foldl f h xs)"
proof (induction xs arbitrary: h)
  case Nil
  show ?case by (simp add: traceExtends_refl)
next
  case (Cons x xs)
  have "traceExtends P h (f h x)" by (rule Cons.prems)
  moreover have "traceExtends P (f h x) (foldl f (f h x) xs)"
    by (rule Cons.IH) (rule Cons.prems)
  ultimately show ?case by (simp add: traceExtends_trans)
qed

lemma traceExtends_foldl_dep:
  "(\<And>h x. traceExtends P h (f h x)) \<Longrightarrow> traceExtends P h (foldl f h (g h))"
  by (rule traceExtends_foldl)

lemma traceExtends_touchNode: "\<not> isCacheSet (TouchNode i) \<Longrightarrow> traceExtends (\<lambda>a. \<not> isCacheSet a) h (touchNode i h)"
  by (simp add: traceExtends_def touchNode_def)

lemma traceExtends_touchPass: "traceExtends (\<lambda>a. \<not> isCacheSet a) h (touchPass h)"
  unfolding touchPass_def
  by (intro traceExtends_foldl traceExtends_touchNode) simp

lemma traceExtends_deleteNode: "traceExtends isDeleteNode h (deleteNode n h)"
  by (simp add: traceExtends_def deleteNode_def)

lemma traceExtends_mono:
  "traceExtends P h h' \<Longrightarrow> (\<And>a. P a \<Longrightarrow> Q a) \<Longrightarrow> traceExtends Q h h'"
  by (auto simp: traceExtends_def list_all_iff)

lemma traceExtends_destroyPass: "traceExtends isDeleteNode h (destroyPass evs h)"
  unfolding destroyPass_def destroyNodesOfType_def
  by (auto intro!: traceExtends_foldl traceExtends_deleteNode traceExtends_refl)

lemma trace_perform: "trace (perform a h) = trace h @ [a]"
  by (cases a) (simp_all add: createNode_def deleteNode_def touchNode_def)

lemma trace_performAll: "trace (performAll acts h) = trace h @ acts"
  unfolding performAll_def
  by (induction acts arbitrary: h) (simp_all add: trace_perform)

lemma createNodes_noCacheSet: "list_all (\<lambda>a. \<not> isCacheSet a) (createNodes rs)"
  by (induction rs rule: createNodes.induct) simp_all

lemma sourceFromOperation_noCacheSet:
  "sourceFromOperation builder r op = Some (acts, res) \<Longrightarrow> list_all (\<lambda>a. \<not> isCacheSet a) acts"
  by (auto simp: sourceFromOperation_def Let_def createNodes_noCacheSet
      split: option.splits sum.splits if_splits prod.splits)

lemma promiseAll_noCacheSet:
  assumes "promiseAll outcomes = Some (acts, res)"
    and "\<And>a r. Some (a, r) \<in> set outcomes \<Longrightarrow> list_all P a"
  shows "list_all P acts"
proof -
  have "acts = concat (map fst (List.map_filter (\<lambda>x. x) outcomes))"
    using assms(1) by (auto simp: promiseAll_def Let_def split: list.splits if_splits)
  moreover have "\<forall>x \<in> set (List.map_filter (\<lambda>x. x) outcomes). list_all P (fst x)"
    using assms(2) by (auto simp: List.map_filter_def)
  ultimately show ?thesis by (auto simp: list_all_iff)
qed


lemma parseInt10_zero: "parseInt10 ''0'' = Some 0"
  by (simp add: parseInt10_def isWhiteSpace_def isDigit_def digitsValue_def)

lemma parseInt10_one: "parseInt10 ''1'' = Some 1"
  by (simp add: parseInt10_def isWhiteSpace_def isDigit_def digitsValue_def)

lemma sourceFromOperation_completed:
  assumes "finishLastOperation (currentOperation r) 0 0 = Some d"
    and "userErrors (execute r q) = []"
    and "completedOperation (operationById r (bulkOperation_id (execute r q))) 1000 0 0 =
           Some (Inr resp, k, w)"
  shows "sourceFromOperation builder r (Inr q) =
     (if parseInt (JStr (objectCount resp)) = Some 0
      then Some ([Info ''No data was returned for this operation''], Inr ())
      else
        (case parseLines (JSON_parse r) (fetch r (url resp)) of
           Inl e \<Rightarrow> Some ([Fetch (url resp)], Inl e)
         | Inr objs \<Rightarrow>
             Some (Fetch (url resp) # createNodes (map builder objs),
                   firstError (map builder objs))))"
  using assms by (simp add: sourceFromOperation_def Let_def)

text \<open>
  C8. For a job that completes with an object count that \<^verbatim>\<open>parseInt\<close> reads as zero, the
  pipeline ends in success with nothing but the message that no data was returned: no
  result file is fetched, no record is built whatever the builder, and no node is
  handed to the host. With any other count, one that reads as no number included, the
  pipeline fetches the result URL and parses its lines.
\<close>

theorem sourceFromOperation_objectCount:
  assumes "finishLastOperation (currentOperation r) 0 0 = Some d"
    and "userErrors (execute r q) = []"
    and "completedOperation (operationById r (bulkOperation_id (execute r q))) 1000 0 0 =
           Some (Inr resp, k, w)"
  shows "(parseInt (JStr (objectCount resp)) = Some 0 \<longrightarrow>
            sourceFromOperation builder r (Inr q) =
              Some ([Info ''No data was returned for this operation''], Inr ())) \<and>
         (parseInt (JStr (objectCount resp)) \<noteq> Some 0 \<longrightarrow>
            sourceFromOperation builder r (Inr q) =
              (case parseLines (JSON_parse r) (fetch r (url resp)) of
                 Inl e \<Rightarrow> Some ([Fetch (url resp)], Inl e)
               | Inr objs \<Rightarrow>
                   Some (Fetch (url resp) # createNodes (map builder objs),
                         firstError (map builder objs))))"
  using sourceFromOperation_completed [OF assms] by simp

lemma completedOperation_demo_completed:
  "completedOperation (demo_polls_completed n) 1000 0 0 =
     Some (Inr (demo_operation ''COMPLETED'' n), 1, 1000)"
  unfolding completedOperation_iff
  by (simp add: demo_polls_completed_def demo_operation_def pollSettled_def pollOutcome_def)

theorem sourceFromOperation_objectCount_witness:
  "sourceFromOperation (buildNode_part_003 demo_api demo_options)
     (demo_remote demo_current (demo_polls_completed ''0'')) (Inr CREATE_PRODUCTS_OPERATION) =
     Some ([Info ''No data was returned for this operation''], Inr ()) \<and>
   sourceFromOperation (buildNode_part_003 demo_api demo_options)
     (demo_remote demo_current (demo_polls_completed ''1'')) (Inr CREATE_PRODUCTS_OPERATION) =
     Some ([Fetch ''https://files.example/result.jsonl'', CreateNode demo_product_node], Inr ())"
proof -
  let ?b = "buildNode_part_003 demo_api demo_options"
  have f: "finishLastOperation (currentOperation (demo_remote demo_current p)) 0 0 = Some (3, 3000)"
    for p by (simp add: demo_remote_def finishLastOperation_demo_current)
  have u: "userErrors (execute (demo_remote demo_current p) CREATE_PRODUCTS_OPERATION) = []"
    for p by (simp add: demo_remote_def)
  have c: "completedOperation (operationById (demo_remote demo_current (demo_polls_completed n))
        (bulkOperation_id (execute (demo_remote demo_current (demo_polls_completed n))
           CREATE_PRODUCTS_OPERATION))) 1000 0 0 =
      Some (Inr (demo_operation ''COMPLETED'' n), 1, 1000)"
    for n by (simp add: demo_remote_def completedOperation_demo_completed)
  have a: "sourceFromOperation ?b (demo_remote demo_current (demo_polls_completed ''0''))
      (Inr CREATE_PRODUCTS_OPERATION) =
      Some ([Info ''No data was returned for this operation''], Inr ())"
    using sourceFromOperation_objectCount [OF f u c, of "''0''" ?b, THEN conjunct1]
    by (simp add: demo_operation_def parseInt10_zero)
  have b: "sourceFromOperation ?b (demo_remote demo_current (demo_polls_completed ''1''))
      (Inr CREATE_PRODUCTS_OPERATION) =
      Some ([Fetch ''https://files.example/result.jsonl'', CreateNode demo_product_node], Inr ())"
    using sourceFromOperation_objectCount [OF f u c, of "''1''" ?b, THEN conjunct2]
    by (simp add: demo_operation_def parseInt10_one demo_remote_def demo_JSON_parse_def
          build_demo_product)
  from a b show ?thesis by simp
qed


lemma sourceAllNodes_trace:
  assumes "sourceAllNodes second builder e options h = Some (h', res)"
  shows "traceExtends (\<lambda>a. \<not> isCacheSet a) h h'"
proof (cases "createOperations options second")
  case (Inl err)
  with assms have "h' = h" by (simp add: sourceAllNodes_def)
  then show ?thesis by (simp add: traceExtends_refl)
next
  case (Inr u)
  with assms obtain acts where
    p: "promiseAll (map (\<lambda>(c, op). sourceFromOperation builder (remote e c) op)
          (fullOperations options)) = Some (acts, res)"
    and h': "h' = performAll acts h"
    by (auto simp: sourceAllNodes_def Let_def split: option.splits prod.splits)
  have "list_all (\<lambda>a. \<not> isCacheSet a) acts"
    by (rule promiseAll_noCacheSet [OF p]) (auto dest: sourceFromOperation_noCacheSet [OF sym])
  with h' show ?thesis by (simp add: traceExtends_def trace_performAll)
qed

lemma sourceChangedNodes_trace:
  assumes "sourceChangedNodes second builder e options cache h = Some (h', res)"
  shows "traceExtends (\<lambda>a. \<not> isCacheSet a) h h'"
proof (cases "createOperations options second")
  case (Inl err)
  with assms have "h' = h" by (simp add: sourceChangedNodes_def)
  then show ?thesis by (simp add: traceExtends_refl)
next
  case (Inr u)
  with assms obtain acts r where
    p: "promiseAll (map (\<lambda>(c, op). sourceFromOperation builder (remote e c) op)
          (deltaOperations e options cache)) = Some (acts, r)"
    and h': "h' = performAll acts (touchPass h) \<or>
             h' = destroyPass (fetchDestroyEventsSince e cache) (performAll acts (touchPass h))"
    by (auto simp: sourceChangedNodes_def Let_def split: option.splits prod.splits sum.splits)
  have "list_all (\<lambda>a. \<not> isCacheSet a) acts"
    by (rule promiseAll_noCacheSet [OF p]) (auto dest: sourceFromOperation_noCacheSet [OF sym])
  then have 1: "traceExtends (\<lambda>a. \<not> isCacheSet a) (touchPass h) (performAll acts (touchPass h))"
    by (simp add: traceExtends_def trace_performAll)
  have 2: "traceExtends (\<lambda>a. \<not> isCacheSet a) (performAll acts (touchPass h))
      (destroyPass (fetchDestroyEventsSince e cache) (performAll acts (touchPass h)))"
    by (rule traceExtends_mono [OF traceExtends_destroyPass]) (auto elim: isDeleteNode.elims)
  from h' show ?thesis
    using traceExtends_trans [OF traceExtends_touchPass 1]
      traceExtends_trans [OF traceExtends_trans [OF traceExtends_touchPass 1] 2]
    by auto
qed

lemma pass_trace:
  assumes "(if cache = None \<or> cache = Some 0
         then sourceAllNodes second builder e options h
         else sourceChangedNodes second builder e options cache h) = Some (h', res)"
  shows "\<exists>new. trace h' = trace h @ new \<and> list_ex isCacheSet new = False"
proof -
  have "traceExtends (\<lambda>a. \<not> isCacheSet a) h h'"
    using assms by (auto split: if_splits dest: sourceAllNodes_trace sourceChangedNodes_trace)
  then show ?thesis by (auto simp: traceExtends_def list_all_iff list_ex_iff)
qed

lemma sourceNodes_branch:
  "sourceNodes second builder e options now cache h =
     cacheSet now cache
       (if cache = None \<or> cache = Some 0
        then sourceAllNodes second builder e options h
        else sourceChangedNodes second builder e options cache h)"
  by (cases cache) (auto simp: sourceNodes_def)

lemma errorsOf_Inl: "(a, Inl e) \<in> set rs \<Longrightarrow> errorsOf rs \<noteq> []"
  by (induction rs rule: errorsOf.induct) auto

lemma errorsOf_Nil: "errorsOf rs = [] \<Longrightarrow> (a, res) \<in> set rs \<Longrightarrow> res = Inr ()"
  by (induction rs rule: errorsOf.induct) auto

lemma promiseAll_error:
  assumes "Some (a, Inl err) \<in> set outcomes"
  shows "\<exists>acts err'. promiseAll outcomes = Some (acts, Inl err')"
proof -
  have "(a, Inl err) \<in> set (List.map_filter (\<lambda>x. x) outcomes)"
    using assms by (force simp: List.map_filter_def)
  then have "errorsOf (List.map_filter (\<lambda>x. x) outcomes) \<noteq> []"
    by (rule errorsOf_Inl)
  then show ?thesis
    by (auto simp: promiseAll_def Let_def split: list.splits)
qed

lemma promiseAll_success:
  assumes "promiseAll outcomes = Some (acts, Inr u)" and "x \<in> set outcomes"
  shows "\<exists>a. x = Some (a, Inr ())"
proof -
  from assms(1) have e: "errorsOf (List.map_filter (\<lambda>x. x) outcomes) = []"
    and n: "\<not> list_ex (\<lambda>x. x = None) outcomes"
    by (auto simp: promiseAll_def Let_def split: list.splits if_splits)
  from n assms(2) obtain a res where x: "x = Some (a, res)"
    by (cases x) (auto simp: list_ex_iff)
  with assms(2) have "(a, res) \<in> set (List.map_filter (\<lambda>x. x) outcomes)"
    by (force simp: List.map_filter_def)
  from errorsOf_Nil [OF e this] x show ?thesis by simp
qed

lemma pass_operations:
  assumes "createOperations options second = Inr ()"
  shows "(if cache = None \<or> cache = Some 0
          then sourceAllNodes second builder e options h
          else sourceChangedNodes second builder e options cache h) =
     (case promiseAll (map (\<lambda>(c, op). sourceFromOperation builder (remote e c) op)
             (if cache = None \<or> cache = Some 0 then fullOperations options
              else deltaOperations e options cache)) of
        None \<Rightarrow> None
      | Some (acts, Inl err) \<Rightarrow>
          Some (performAll acts (if cache = None \<or> cache = Some 0 then h else touchPass h),
                Inl err)
      | Some (acts, Inr u) \<Rightarrow>
          Some (if cache = None \<or> cache = Some 0 then performAll acts h
                else destroyPass (fetchDestroyEventsSince e cache)
                       (performAll acts (touchPass h)),
                Inr ()))"
  using assms
  by (auto simp: sourceAllNodes_def sourceChangedNodes_def Let_def
      split: option.splits prod.splits sum.splits)

lemma firstError_Inl: "Inl err \<in> set rs \<Longrightarrow> \<exists>err'. firstError rs = Inl err'"
  by (induction rs rule: firstError.induct) auto

text \<open>
  C6, as amended. The pass reads the stored time at its start and is the full load
  exactly when nothing is stored or the stored time is zero (the source tests the
  truthiness of what it reads); with any other time stored it is the incremental load.
  When the pass ends without error, the time of the clock is written to the cache, and
  this write is the last thing done; when the pass ends in an error the cache is as it
  was, and a pass that never ends has no result. The pass itself writes nothing to the
  cache. An error reaches the end of the pass: the failure of the call that sets the
  operations up, the failure of one pipeline (also while another is still pending), and
  within a pipeline the failure of the build of one record. A pass that ends without
  error is one in which every pipeline has ended without error.
\<close>

theorem sourceNodes_lastBuildTime:
  assumes "pass = (if cache = None \<or> cache = Some 0
                   then sourceAllNodes second builder e options h
                   else sourceChangedNodes second builder e options cache h)"
    and "operations = (if cache = None \<or> cache = Some 0 then fullOperations options
                       else deltaOperations e options cache)"
  shows "(pass = Some (h1, Inr u) \<longrightarrow>
            sourceNodes second builder e options now cache h =
              Some (h1\<lparr>trace := trace h1 @ [CacheSet now]\<rparr>, Some now, Inr ())) \<and>
         (pass = Some (h1, Inl err) \<longrightarrow>
            sourceNodes second builder e options now cache h = Some (h1, cache, Inl err)) \<and>
         (pass = None \<longrightarrow> sourceNodes second builder e options now cache h = None) \<and>
         (pass = Some (h1, res) \<longrightarrow>
            (\<exists>new. trace h1 = trace h @ new \<and> list_ex isCacheSet new = False)) \<and>
         (createOperations options second = Inl err \<longrightarrow> pass = Some (h, Inl err)) \<and>
         (createOperations options second = Inr () \<and> (c, op) \<in> set operations \<and>
          sourceFromOperation builder (remote e c) op = Some (acts, Inl err) \<longrightarrow>
            (\<exists>h2 err2. pass = Some (h2, Inl err2))) \<and>
         (createOperations options second = Inr () \<and> (c, op) \<in> set operations \<and>
          pass = Some (h1, Inr u) \<longrightarrow>
            (\<exists>acts2. sourceFromOperation builder (remote e c) op = Some (acts2, Inr ()))) \<and>
         (finishLastOperation (currentOperation r) 0 0 = Some d \<and>
          userErrors (execute r q) = [] \<and>
          completedOperation (operationById r (bulkOperation_id (execute r q))) 1000 0 0 =
            Some (Inr resp, k, w) \<and>
          parseInt (JStr (objectCount resp)) \<noteq> Some 0 \<and>
          parseLines (JSON_parse r) (fetch r (url resp)) = Inr objs \<and>
          ob \<in> set objs \<and> builder ob = Inl err \<longrightarrow>
            (\<exists>err2. sourceFromOperation builder r (Inr q) =
               Some (Fetch (url resp) # createNodes (map builder objs), Inl err2)))"
proof (intro conjI impI)
  note b = sourceNodes_branch [of second builder e options now cache h, folded assms(1)]
  show "sourceNodes second builder e options now cache h =
      Some (h1\<lparr>trace := trace h1 @ [CacheSet now]\<rparr>, Some now, Inr ())"
    if "pass = Some (h1, Inr u)"
    using that by (simp add: b cacheSet_def)
  show "sourceNodes second builder e options now cache h = Some (h1, cache, Inl err)"
    if "pass = Some (h1, Inl err)"
    using that by (simp add: b cacheSet_def)
  show "sourceNodes second builder e options now cache h = None" if "pass = None"
    using that by (simp add: b cacheSet_def)
  show "\<exists>new. trace h1 = trace h @ new \<and> list_ex isCacheSet new = False"
    if "pass = Some (h1, res)"
    using that pass_trace [of cache second builder e options h h1 res]
    by (simp add: assms(1))
  show "pass = Some (h, Inl err)" if "createOperations options second = Inl err"
    using that by (simp add: assms(1) sourceAllNodes_def sourceChangedNodes_def)
next
  assume a: "createOperations options second = Inr () \<and> (c, op) \<in> set operations \<and>
          sourceFromOperation builder (remote e c) op = Some (acts, Inl err)"
  let ?out = "map (\<lambda>(c, op). sourceFromOperation builder (remote e c) op) operations"
  from a have "Some (acts, Inl err) \<in> set ?out" by force
  from promiseAll_error [OF this] obtain acts' err' where
    "promiseAll ?out = Some (acts', Inl err')" by blast
  then show "\<exists>h2 err2. pass = Some (h2, Inl err2)"
    using a pass_operations [of options second cache builder e h]
    by (simp add: assms)
next
  assume a: "createOperations options second = Inr () \<and> (c, op) \<in> set operations \<and>
          pass = Some (h1, Inr u)"
  let ?out = "map (\<lambda>(c, op). sourceFromOperation builder (remote e c) op) operations"
  from a obtain acts' u' where p: "promiseAll ?out = Some (acts', Inr u')"
    using pass_operations [of options second cache builder e h]
    by (auto simp: assms split: option.splits prod.splits sum.splits)
  from a have "sourceFromOperation builder (remote e c) op \<in> set ?out" by force
  from promiseAll_success [OF p this]
  show "\<exists>acts2. sourceFromOperation builder (remote e c) op = Some (acts2, Inr ())" .
next
  assume a: "finishLastOperation (currentOperation r) 0 0 = Some d \<and>
          userErrors (execute r q) = [] \<and>
          completedOperation (operationById r (bulkOperation_id (execute r q))) 1000 0 0 =
            Some (Inr resp, k, w) \<and>
          parseInt (JStr (objectCount resp)) \<noteq> Some 0 \<and>
          parseLines (JSON_parse r) (fetch r (url resp)) = Inr objs \<and>
          ob \<in> set objs \<and> builder ob = Inl err"
  then have "Inl err \<in> set (map builder objs)" by force
  from firstError_Inl [OF this] obtain err' where "firstError (map builder objs) = Inl err'"
    by blast
  with a show "\<exists>err2. sourceFromOperation builder r (Inr q) =
               Some (Fetch (url resp) # createNodes (map builder objs), Inl err2)"
    by (simp add: sourceFromOperation_def Let_def)
qed


lemma sourceFromOperation_demo_empty:
  "sourceFromOperation builder (demo_remote demo_current (demo_polls_completed ''0'')) (Inr q) =
     Some ([Info ''No data was returned for this operation''], Inr ())"
proof -
  let ?r = "demo_remote demo_current (demo_polls_completed ''0'')"
  have f: "finishLastOperation (currentOperation ?r) 0 0 = Some (3, 3000)"
    by (simp add: demo_remote_def finishLastOperation_demo_current)
  have u: "userErrors (execute ?r q) = []"
    by (simp add: demo_remote_def)
  have c: "completedOperation (operationById ?r (bulkOperation_id (execute ?r q))) 1000 0 0 =
      Some (Inr (demo_operation ''COMPLETED'' ''0''), 1, 1000)"
    by (simp add: demo_remote_def completedOperation_demo_completed)
  show ?thesis
    using sourceFromOperation_completed [OF f u c, of builder]
    by (simp add: demo_operation_def parseInt10_zero)
qed

lemma completedOperation_demo_failed:
  "completedOperation demo_polls_failed 1000 0 0 =
     Some (Inl (OperationFailed (demo_operation ''FAILED'' ''0'')), 2, 2000)"
  unfolding completedOperation_iff
  by (auto simp: demo_polls_failed_def demo_operation_def pollSettled_def pollOutcome_def
       less_Suc_eq numeral_2_eq_2)

lemma sourceFromOperation_demo_failed:
  "sourceFromOperation builder (demo_remote demo_current demo_polls_failed) (Inr q) =
     Some ([], Inl (OperationFailed (demo_operation ''FAILED'' ''0'')))"
proof -
  let ?r = "demo_remote demo_current demo_polls_failed"
  have f: "finishLastOperation (currentOperation ?r) 0 0 = Some (3, 3000)"
    by (simp add: demo_remote_def finishLastOperation_demo_current)
  have u: "userErrors (execute ?r q) = []"
    by (simp add: demo_remote_def)
  have c: "completedOperation (operationById ?r (bulkOperation_id (execute ?r q))) 1000 0 0 =
      Some (Inl (OperationFailed (demo_operation ''FAILED'' ''0'')), 2, 2000)"
    by (simp add: demo_remote_def completedOperation_demo_failed)
  show ?thesis by (rule sourceFromOperation_failed [OF f u c])
qed

lemma build_demo_unbuildable:
  "buildNode_part_003 demo_api demo_options demo_unbuildable =
     Inl (Error ''Expected an ID in the format gid://shopify/<typename>/<id>'')"
  by (simp add: buildNode_part_003_def demo_unbuildable_def get_prop_def)

lemma sourceFromOperation_demo_unbuildable:
  "sourceFromOperation (buildNode_part_003 demo_api demo_options)
     (remote demo_env_unbuildable c) (Inr q) =
     Some ([Fetch ''https://files.example/result.jsonl''],
           Inl (Error ''Expected an ID in the format gid://shopify/<typename>/<id>''))"
proof -
  let ?r = "remote demo_env_unbuildable c"
  have f: "finishLastOperation (currentOperation ?r) 0 0 = Some (3, 3000)"
    by (simp add: demo_env_unbuildable_def demo_remote_def finishLastOperation_demo_current)
  have u: "userErrors (execute ?r q) = []"
    by (simp add: demo_env_unbuildable_def demo_remote_def)
  have c: "completedOperation (operationById ?r (bulkOperation_id (execute ?r q))) 1000 0 0 =
      Some (Inr (demo_operation ''COMPLETED'' ''1''), 1, 1000)"
    by (simp add: demo_env_unbuildable_def demo_remote_def completedOperation_demo_completed)
  have p: "parseLines (JSON_parse ?r) (fetch ?r (url (demo_operation ''COMPLETED'' ''1''))) =
      Inr [demo_unbuildable]"
    by (simp add: demo_env_unbuildable_def demo_remote_def)
  show ?thesis
    using sourceFromOperation_completed
      [OF f u c, of "buildNode_part_003 demo_api demo_options"]
    by (simp add: p build_demo_unbuildable) (simp add: demo_operation_def parseInt10_one)
qed

lemma demo_no_orders: "shopifyConnections demo_options = []"
  by (simp add: demo_options_def)

lemma touchPass_demo_host: "touchPass demo_host = demo_host"
  by (simp add: touchPass_def shopifyNodeTypes_def getNodesByType_def demo_host_def)

lemma touchPass_demo_store:
  "touchPass demo_store =
     demo_store\<lparr>trace := [TouchNode (JStr ''node-1''), TouchNode (JStr ''node-2'')]\<rparr>"
  by (simp add: touchPass_def shopifyNodeTypes_def getNodesByType_def demo_store_def
        demo_stored_product_def demo_stored_variant_def demo_stored_metafield_def
        internal_type_def get_prop_def touchNode_def)

lemma sourceAllNodes_demo_empty:
  "sourceAllNodes (Some demo_api) builder (demo_env (demo_polls_completed ''0''))
     demo_options h =
     Some (h\<lparr>trace := trace h @ [Info ''No data was returned for this operation'']\<rparr>, Inr ())"
  by (simp add: sourceAllNodes_def createOperations_def fullOperations_def demo_env_def
        demo_no_orders sourceFromOperation_demo_empty promiseAll_def List.map_filter_def
        performAll_def)

lemma sourceChangedNodes_demo_empty:
  "sourceChangedNodes (Some demo_api) builder (demo_env (demo_polls_completed ''0''))
     demo_options (Some 0) h =
     Some ((touchPass h)\<lparr>trace := trace (touchPass h) @
                             [Info ''No data was returned for this operation'']\<rparr>, Inr ())"
  by (simp add: sourceChangedNodes_def createOperations_def deltaOperations_def demo_env_def
        demo_no_orders toISOString_def sourceFromOperation_demo_empty promiseAll_def
        List.map_filter_def performAll_def destroyPass_def Let_def)

lemma sourceChangedNodes_demo_failed:
  "sourceChangedNodes (Some demo_api) builder (demo_env demo_polls_failed) demo_options
     (Some 1500000000000) demo_host =
     Some (demo_host, Inl (OperationFailed (demo_operation ''FAILED'' ''0'')))"
  by (simp add: sourceChangedNodes_def createOperations_def deltaOperations_def demo_env_def
        demo_no_orders toISOString_def sourceFromOperation_demo_failed promiseAll_def
        List.map_filter_def performAll_def touchPass_demo_host)

lemma sourceAllNodes_demo_unbuildable:
  "sourceAllNodes (Some demo_api) (buildNode_part_003 demo_api demo_options)
     demo_env_unbuildable demo_options demo_host =
     Some (\<lparr>nodes = [], trace = [Fetch ''https://files.example/result.jsonl'']\<rparr>,
           Inl (Error ''Expected an ID in the format gid://shopify/<typename>/<id>''))"
  by (simp add: sourceAllNodes_def createOperations_def fullOperations_def demo_no_orders
        sourceFromOperation_demo_unbuildable promiseAll_def List.map_filter_def
        performAll_def demo_host_def)

theorem sourceNodes_lastBuildTime_witness:
  "sourceNodes (Some demo_api) (buildNode_part_003 demo_api demo_options)
     (demo_env (demo_polls_completed ''0'')) demo_options 1600000000000 None demo_host =
     Some (\<lparr>nodes = [], trace = [Info ''No data was returned for this operation'',
                                  CacheSet 1600000000000]\<rparr>,
           Some 1600000000000, Inr ()) \<and>
   sourceNodes (Some demo_api) (buildNode_part_003 demo_api demo_options)
     (demo_env demo_polls_failed) demo_options 1600000000000 (Some 1500000000000) demo_host =
     Some (demo_host, Some 1500000000000,
           Inl (OperationFailed (demo_operation ''FAILED'' ''0''))) \<and>
   sourceNodes (Some demo_api) (buildNode_part_003 demo_api demo_options)
     demo_env_unbuildable demo_options 1600000000000 None demo_host =
     Some (\<lparr>nodes = [], trace = [Fetch ''https://files.example/result.jsonl'']\<rparr>, None,
           Inl (Error ''Expected an ID in the format gid://shopify/<typename>/<id>'')) \<and>
   sourceNodes None (buildNode_part_003 demo_api demo_options)
     (demo_env (demo_polls_completed ''0'')) demo_options 1600000000000 None demo_host =
     Some (demo_host, None,
           Inl (TypeError ''Cannot destructure property reporter of undefined'')) \<and>
   sourceFromOperation (buildNode_part_003 demo_api demo_options)
     (remote demo_env_unbuildable Products) (Inr CREATE_PRODUCTS_OPERATION) =
     Some ([Fetch ''https://files.example/result.jsonl''],
           Inl (Error ''Expected an ID in the format gid://shopify/<typename>/<id>'')) \<and>
   sourceFromOperation (buildNode_part_003 demo_api demo_options)
     (remote (demo_env (demo_polls_completed ''0'')) Products) (Inr CREATE_PRODUCTS_OPERATION) =
     Some ([Info ''No data was returned for this operation''], Inr ())"
proof -
  let ?b = "buildNode_part_003 demo_api demo_options"
  let ?e = "demo_env (demo_polls_completed ''0'')"
  let ?h1 = "\<lparr>nodes = [], trace = [Info ''No data was returned for this operation'']\<rparr>"
  let ?h3 = "\<lparr>nodes = [], trace = [Fetch ''https://files.example/result.jsonl'']\<rparr>"
  have a: "sourceNodes (Some demo_api) ?b ?e demo_options 1600000000000 None demo_host =
     Some (\<lparr>nodes = [], trace = [Info ''No data was returned for this operation'',
                                  CacheSet 1600000000000]\<rparr>,
           Some 1600000000000, Inr ())"
    using sourceNodes_lastBuildTime
      [OF refl refl, where second = "Some demo_api" and builder = ?b and e = ?e
         and options = demo_options and h = demo_host and cache = None and ?h1.0 = ?h1
         and u = "()" and now = 1600000000000, THEN conjunct1]
    by (simp add: sourceAllNodes_demo_empty demo_host_def)
  have b: "sourceNodes (Some demo_api) ?b (demo_env demo_polls_failed) demo_options
      1600000000000 (Some 1500000000000) demo_host =
     Some (demo_host, Some 1500000000000,
           Inl (OperationFailed (demo_operation ''FAILED'' ''0'')))"
    using sourceNodes_lastBuildTime
      [OF refl refl, where second = "Some demo_api" and builder = ?b
         and e = "demo_env demo_polls_failed" and options = demo_options and h = demo_host
         and cache = "Some 1500000000000" and ?h1.0 = demo_host
         and err = "OperationFailed (demo_operation ''FAILED'' ''0'')"
         and now = 1600000000000, THEN conjunct2, THEN conjunct1]
    by (simp add: sourceChangedNodes_demo_failed)
  have c: "sourceNodes (Some demo_api) ?b demo_env_unbuildable demo_options 1600000000000
      None demo_host =
     Some (?h3, None,
           Inl (Error ''Expected an ID in the format gid://shopify/<typename>/<id>''))"
    using sourceNodes_lastBuildTime
      [OF refl refl, where second = "Some demo_api" and builder = ?b
         and e = demo_env_unbuildable and options = demo_options and h = demo_host
         and cache = None and ?h1.0 = ?h3
         and err = "Error ''Expected an ID in the format gid://shopify/<typename>/<id>''"
         and now = 1600000000000, THEN conjunct2, THEN conjunct1]
    by (simp add: sourceAllNodes_demo_unbuildable)
  note t = sourceNodes_lastBuildTime
      [OF refl refl, where second = None and builder = ?b and e = ?e
         and options = demo_options and h = demo_host and cache = None and ?h1.0 = demo_host
         and err = "TypeError ''Cannot destructure property reporter of undefined''"
         and now = 1600000000000]
  have "sourceAllNodes None ?b ?e demo_options demo_host =
      Some (demo_host, Inl (TypeError ''Cannot destructure property reporter of undefined''))"
    using t [THEN conjunct2, THEN conjunct2, THEN conjunct2, THEN conjunct2, THEN conjunct1]
    by (simp add: createOperations_def)
  then have d: "sourceNodes None ?b ?e demo_options 1600000000000 None demo_host =
     Some (demo_host, None,
           Inl (TypeError ''Cannot destructure property reporter of undefined''))"
    using t [THEN conjunct2, THEN conjunct1] by simp
  let ?r = "remote demo_env_unbuildable Products"
  have r: "finishLastOperation (currentOperation ?r) 0 0 = Some (3, 3000)"
    "userErrors (execute ?r CREATE_PRODUCTS_OPERATION) = []"
    "completedOperation
       (operationById ?r (bulkOperation_id (execute ?r CREATE_PRODUCTS_OPERATION))) 1000 0 0 =
       Some (Inr (demo_operation ''COMPLETED'' ''1''), 1, 1000)"
    "parseInt (JStr (objectCount (demo_operation ''COMPLETED'' ''1''))) \<noteq> Some 0"
    "parseLines (JSON_parse ?r) (fetch ?r (url (demo_operation ''COMPLETED'' ''1''))) =
       Inr [demo_unbuildable]"
    "?b demo_unbuildable = Inl (Error ''Expected an ID in the format gid://shopify/<typename>/<id>'')"
    by (simp_all add: demo_env_unbuildable_def demo_remote_def finishLastOperation_demo_current
          completedOperation_demo_completed build_demo_unbuildable)
       (simp add: demo_operation_def parseInt10_one)
  note t3 = sourceNodes_lastBuildTime
      [OF refl refl, where second = "Some demo_api" and builder = ?b
         and e = demo_env_unbuildable and options = demo_options and h = demo_host
         and cache = None and c = Products and op = "Inr CREATE_PRODUCTS_OPERATION"
         and acts = "[Fetch ''https://files.example/result.jsonl'']"
         and err = "Error ''Expected an ID in the format gid://shopify/<typename>/<id>''"
         and r = ?r and q = CREATE_PRODUCTS_OPERATION
         and resp = "demo_operation ''COMPLETED'' ''1''" and objs = "[demo_unbuildable]"
         and ob = demo_unbuildable and d = "(3, 3000)" and k = 1 and w = 1000]
  have e8: "\<exists>err2. sourceFromOperation ?b ?r (Inr CREATE_PRODUCTS_OPERATION) =
      Some ([Fetch ''https://files.example/result.jsonl''], Inl err2)"
    using t3 [THEN conjunct2, THEN conjunct2, THEN conjunct2, THEN conjunct2, THEN conjunct2,
        THEN conjunct2, THEN conjunct2] r
    by (simp add: demo_operation_def)
  have e6: "\<exists>h2 err2. sourceAllNodes (Some demo_api) ?b demo_env_unbuildable demo_options
      demo_host = Some (h2, Inl err2)"
    using t3 [THEN conjunct2, THEN conjunct2, THEN conjunct2, THEN conjunct2, THEN conjunct2,
        THEN conjunct1]
    by (simp add: createOperations_def fullOperations_def sourceFromOperation_demo_unbuildable)
  have e7: "\<exists>acts2. sourceFromOperation ?b (remote ?e Products) (Inr CREATE_PRODUCTS_OPERATION) =
      Some (acts2, Inr ())"
    using sourceNodes_lastBuildTime
      [OF refl refl, where second = "Some demo_api" and builder = ?b and e = ?e
         and options = demo_options and h = demo_host and cache = None and ?h1.0 = ?h1
         and u = "()" and c = Products and op = "Inr CREATE_PRODUCTS_OPERATION",
       THEN conjunct2, THEN conjunct2, THEN conjunct2, THEN conjunct2, THEN conjunct2,
       THEN conjunct2, THEN conjunct1]
    by (simp add: createOperations_def fullOperations_def sourceAllNodes_demo_empty
          demo_host_def)
  have f: "sourceFromOperation ?b ?r (Inr CREATE_PRODUCTS_OPERATION) =
     Some ([Fetch ''https://files.example/result.jsonl''],
           Inl (Error ''Expected an ID in the format gid://shopify/<typename>/<id>''))"
    using e8 e6 by (simp add: sourceFromOperation_demo_unbuildable)
  have g: "sourceFromOperation ?b (remote ?e Products) (Inr CREATE_PRODUCTS_OPERATION) =
     Some ([Info ''No data was returned for this operation''], Inr ())"
    using e7 by (simp add: demo_env_def sourceFromOperation_demo_empty)
  from a b c d f g show ?thesis by simp
qed

text \<open>
  C6 as it is worded fails where it says that the full load is chosen exactly when no
  time is stored. With the time \<open>0\<close> stored the pass is the full load: it does what it
  does with nothing stored and touches no stored node, where the incremental load
  first touches the two stored nodes of the tracked types.
\<close>

theorem sourceNodes_lastBuildTime_counterexample:
  "sourceNodes (Some demo_api) (buildNode_part_003 demo_api demo_options)
     (demo_env (demo_polls_completed ''0'')) demo_options 1600000000000 (Some 0) demo_store =
     sourceNodes (Some demo_api) (buildNode_part_003 demo_api demo_options)
       (demo_env (demo_polls_completed ''0'')) demo_options 1600000000000 None demo_store \<and>
   sourceNodes (Some demo_api) (buildNode_part_003 demo_api demo_options)
     (demo_env (demo_polls_completed ''0'')) demo_options 1600000000000 (Some 0) demo_store =
     Some (demo_store\<lparr>trace := [Info ''No data was returned for this operation'',
                                 CacheSet 1600000000000]\<rparr>,
           Some 1600000000000, Inr ()) \<and>
   cacheSet 1600000000000 (Some 0)
     (sourceChangedNodes (Some demo_api) (buildNode_part_003 demo_api demo_options)
        (demo_env (demo_polls_completed ''0'')) demo_options (Some 0) demo_store) =
     Some (demo_store\<lparr>trace := [TouchNode (JStr ''node-1''), TouchNode (JStr ''node-2''),
                                 Info ''No data was returned for this operation'',
                                 CacheSet 1600000000000]\<rparr>,
           Some 1600000000000, Inr ())"
  by (simp add: sourceNodes_def sourceAllNodes_demo_empty sourceChangedNodes_demo_empty
        touchPass_demo_store cacheSet_def)
     (simp add: demo_store_def)

text \<open>
  As the source calls it, \<^verbatim>\<open>createOperations(pluginOptions)\<close>, the set-up has no second
  argument, and the pass ends there, full or incremental: nothing is asked of the remote
  system or of the host, and the cache stays as it is.
\<close>

lemma sourceNodes_without_second_argument:
  "sourceNodes None builder e options now cache h =
     Some (h, cache, Inl (TypeError ''Cannot destructure property reporter of undefined''))"
  by (cases cache)
     (simp_all add: sourceNodes_def sourceAllNodes_def sourceChangedNodes_def
        createOperations_def cacheSet_def)


section \<open>Deletions: the cascade pass and the reconciliation hook\<close>

lemma foldl_deleteNode_nodes:
  "nodes (foldl (\<lambda>h node. if D node then deleteNode node h else h) h xs) =
     filter (\<lambda>n. \<not> (n \<in> set xs \<and> D n)) (nodes h)"
proof (induction xs arbitrary: h)
  case Nil
  show ?case by simp
next
  case (Cons x xs)
  show ?case
    by (auto simp: Cons.IH deleteNode_def removeAll_filter_not_eq intro!: filter_cong)
qed

lemma foldl_deleteNode_trace:
  "trace (foldl (\<lambda>h node. if D node then deleteNode node h else h) h xs) =
     trace h @ map DeleteNode (filter D xs)"
  by (induction xs arbitrary: h) (simp_all add: deleteNode_def)

lemma destroyNodesOfType_nodes:
  "nodes (destroyNodesOfType evs h t) =
     filter (\<lambda>n. \<not> (internal_type n = JStr t \<and> list_ex (matchesEvent n) evs)) (nodes h)"
  unfolding destroyNodesOfType_def foldl_deleteNode_nodes
  by (rule filter_cong) (auto simp: getNodesByType_def)


lemma destroyNodesOfTypes_nodes:
  "nodes (foldl (destroyNodesOfType evs) h ts) =
     filter (\<lambda>n. \<not> (internal_type n \<in> JStr ` set ts \<and> list_ex (matchesEvent n) evs)) (nodes h)"
proof (induction ts arbitrary: h)
  case Nil
  show ?case by simp
next
  case (Cons t ts)
  show ?case
    by (auto simp: Cons.IH destroyNodesOfType_nodes intro!: filter_cong)
qed


lemma destroyPass_nodes:
  "nodes (destroyPass evs h) =
     filter (\<lambda>n. \<not> (internal_type n \<in> JStr ` set shopifyNodeTypes \<and>
                     list_ex (matchesEvent n) evs)) (nodes h)"
  by (simp add: destroyPass_def destroyNodesOfTypes_nodes)




subsection \<open>Numbers\<close>

declare bitLength.simps [simp del]

lemma bitLength_gt: "2 ^ k \<le> n \<Longrightarrow> k < bitLength n"
proof (induction k arbitrary: n)
  case 0
  then show ?case by (subst bitLength.simps) simp
next
  case (Suc k)
  then have "2 ^ k \<le> n div 2" by simp
  moreover from Suc.prems have "n \<noteq> 0" by (cases "n = 0") simp_all
  ultimately show ?case using Suc.IH [of "n div 2"] by (subst bitLength.simps) simp
qed

lemma bitLength_lower: "0 < n \<Longrightarrow> 2 ^ (bitLength n - 1) \<le> n"
proof (induction n rule: bitLength.induct)
  case (1 n)
  show ?case
  proof (cases "n div 2 = 0")
    case True
    with 1(2) show ?thesis
      by (subst bitLength.simps, subst bitLength.simps) simp
  next
    case False
    then have p: "0 < n div 2" by simp
    have "0 < bitLength (n div 2)" using p by (subst bitLength.simps) simp
    then have "2 ^ bitLength (n div 2) = 2 * 2 ^ (bitLength (n div 2) - 1)"
      by (cases "bitLength (n div 2)") simp_all
    also have "\<dots> \<le> 2 * (n div 2)" using 1(1) [OF _ p] 1(2) by simp
    also have "\<dots> \<le> n" by simp
    finally show ?thesis using 1(2) by (subst bitLength.simps) simp
  qed
qed

lemma roundToDouble_large:
  assumes "2 ^ 53 \<le> n"
  shows "2 ^ 53 \<le> roundToDouble n"
proof -
  define e where "e = bitLength n - 53"
  define q where "q = n div 2 ^ e"
  from bitLength_gt [OF assms] have b: "53 < bitLength n" .
  then have e: "0 < e" and be: "bitLength n - 1 = 52 + e" by (simp_all add: e_def)
  from assms have "0 < n" by (rule_tac less_le_trans [of 0 "2^53"]) simp_all
  from bitLength_lower [OF this] have "(2::nat) ^ (52 + e) \<le> n"
    by (simp only: be)
  then have "(2::nat) ^ 52 * 2 ^ e \<le> n"
    by (simp only: power_add)
  then have q: "2 ^ 52 \<le> q"
    by (simp add: q_def less_eq_div_iff_mult_less_eq)
  have "(2::nat) ^ 53 = 2 ^ 52 * 2 ^ 1" by simp
  also have "\<dots> \<le> 2 ^ 52 * 2 ^ e" using e by (intro mult_le_mono2 power_increasing) simp_all
  also have "\<dots> \<le> q * 2 ^ e" using q by (intro mult_le_mono1)
  finally have 1: "2 ^ 53 \<le> q * 2 ^ e" .
  then have 2: "2 ^ 53 \<le> (q + 1) * 2 ^ e"
    by (rule order_trans) (simp add: algebra_simps)
  from assms 1 2 show ?thesis
    by (simp add: roundToDouble_def Let_def e_def [symmetric] q_def [symmetric] del: power_Suc)
qed

lemma toNumber_small:
  assumes "\<bar>z\<bar> < 2 ^ 53"
  shows "toNumber z = Finite z"
proof -
  from assms have n: "nat \<bar>z\<bar> < 2 ^ 53" by (simp add: nat_less_iff)
  then have r: "roundToDouble (nat \<bar>z\<bar>) = nat \<bar>z\<bar>" by (simp add: roundToDouble_def)
  from n have "\<not> 2 ^ 1024 \<le> nat \<bar>z\<bar>" by simp
  then show ?thesis by (simp add: toNumber_def r Let_def)
qed

lemma toNumber_large:
  assumes "2 ^ 53 \<le> \<bar>z\<bar>" and "\<bar>a\<bar> < 2 ^ 53"
  shows "toNumber z \<noteq> Finite a"
proof -
  from assms(1) have "2 ^ 53 \<le> nat \<bar>z\<bar>" by (simp add: le_nat_iff)
  from roundToDouble_large [OF this] have "2 ^ 53 \<le> int (roundToDouble (nat \<bar>z\<bar>))"
    by (metis of_nat_le_iff of_nat_numeral of_nat_power)
  with assms(2) show ?thesis
    by (auto simp: toNumber_def Let_def)
qed

lemma toNumber_eq_small:
  assumes "\<bar>a\<bar> < 2 ^ 53"
  shows "(toNumber b = toNumber a) = (b = a)"
proof (cases "\<bar>b\<bar> < 2 ^ 53")
  case True
  with assms show ?thesis by (simp add: toNumber_small)
next
  case False
  then have "2 ^ 53 \<le> \<bar>b\<bar>" by simp
  from toNumber_large [OF this assms] assms False show ?thesis
    by (auto simp: toNumber_small)
qed

text \<open>The test of a count against zero is the same on the integer and on the double.\<close>

lemma toNumber_zero: "(toNumber z = Finite 0) = (z = 0)"
  using toNumber_eq_small [of 0 z] toNumber_small [of 0] by simp


subsection \<open>The cascade pass\<close>


lemmas demo_store_eval =
  demo_store_def demo_stored_product_def demo_stored_variant_def demo_stored_metafield_def
  internal_type_def get_prop_def

lemma parseInt_demo_stored:
  "parseInt (get_prop demo_stored_product ''shopifyId'') = Some 42"
  "parseInt (get_prop demo_stored_variant ''shopifyId'') = Some 42"
  by (simp_all add: demo_store_eval parseInt10_def isWhiteSpace_def isDigit_def
        digitsValue_def)



text \<open>
  The loop of the JavaScript copy deletes nothing. Where the loop above deletes a node,
  it ends in the reference error; otherwise it leaves the host as it is.
\<close>

lemma destroyNodes_part_000_iff:
  "destroyNodes_part_000 evs ns =
     (if \<exists>n\<in>set ns. list_ex (matchesEvent n) evs
      then Inl (ReferenceError ''actions is not defined'') else Inr ())"
  by (induction ns) auto

lemma destroyTypes_part_000_iff:
  "destroyTypes_part_000 evs h ts =
     (if \<exists>n\<in>set (nodes h). internal_type n \<in> JStr ` set ts \<and> list_ex (matchesEvent n) evs
      then Inl (ReferenceError ''actions is not defined'') else Inr h)"
  by (induction ts) (auto simp: destroyNodes_part_000_iff getNodesByType_def)

lemma destroyPass_part_000_iff:
  "destroyPass_part_000 evs h =
     (if nodes (destroyPass evs h) \<noteq> nodes h
      then Inl (ReferenceError ''actions is not defined'') else Inr h)"
proof -
  let ?D = "\<lambda>n. internal_type n \<in> JStr ` set shopifyNodeTypes \<and> list_ex (matchesEvent n) evs"
  have "(filter (\<lambda>n. \<not> ?D n) (nodes h) \<noteq> nodes h) = (\<exists>n\<in>set (nodes h). ?D n)"
    by (auto simp: filter_id_conv)
  then show ?thesis
    by (cases "evs = []")
       (simp_all add: destroyPass_part_000_def destroyTypes_part_000_iff destroyPass_nodes)
qed

lemma destroyPass_part_000_demo:
  "destroyPass_part_000 [demo_event] demo_store =
     Inl (ReferenceError ''actions is not defined'')"
proof -
  have "matchesEvent demo_stored_product demo_event"
    by (simp add: matchesEvent_def parseInt_demo_stored)
       (simp add: demo_store_eval demo_event_def)
  then show ?thesis
    by (simp add: destroyPass_part_000_def destroyTypes_part_000_iff demo_store_def
          shopifyNodeTypes_def)
       (simp add: demo_store_eval)
qed

subsection \<open>The reconciliation hook\<close>

lemma foldl_deleteNode_all_nodes:
  "nodes (foldl (\<lambda>h node. deleteNode node h) h xs) = filter (\<lambda>n. n \<notin> set xs) (nodes h)"
  by (induction xs arbitrary: h)
     (auto simp: deleteNode_def removeAll_filter_not_eq intro!: filter_cong)

lemma foldl_deleteNode_all_trace:
  "trace (foldl (\<lambda>h node. deleteNode node h) h xs) = trace h @ map DeleteNode xs"
  by (induction xs arbitrary: h) (simp_all add: deleteNode_def)

lemma getNodesByType_mem:
  "m \<in> set (getNodesByType h t) \<longleftrightarrow> m \<in> set (nodes h) \<and> internal_type m = JStr t"
  by (auto simp: getNodesByType_def)

lemma filterProducts_strings:
  "(\<forall>p\<in>set objects. \<exists>s. get_prop p ''id'' = JStr s) \<Longrightarrow>
   filterProducts objects = Inr (filter (\<lambda>p. isProduct p = Inr True) objects)"
  by (induction objects) (auto simp: isProduct_def)

lemma isProduct_matched:
  "get_prop p ''id'' = JStr s \<Longrightarrow> pattern_match s = Some (full, ''Product'', lid) \<Longrightarrow>
   isProduct p = Inr True"
  by (simp add: isProduct_def)

lemma nodeIdsOf_Some:
  "nodeIdsOf (Some f) products =
     Inr (map (\<lambda>product. JStr (f (get_prop product ''id''))) products)"
  by (simp add: nodeIdsOf_def)

text \<open>
  What the hook does when the import gives a function \<open>f\<close>, on a batch whose records have
  string identifiers: it asks the host for deletions and for nothing else, and returns
  the builds of the batch, which are not yet published. Every stored node of the type
  \<^verbatim>\<open>ShopifyProductVariant\<close> whose \<^verbatim>\<open>productId\<close> is what \<open>f\<close> makes of the identifier of a
  product of the batch is deleted, and with it every stored node of the type
  \<^verbatim>\<open>ShopifyProductVariantMetafield\<close> whose \<^verbatim>\<open>productVariantId\<close> is the \<^verbatim>\<open>id\<close> of such a
  variant.
\<close>

lemma incrementalProductsProcessor_with_import:
  assumes "\<forall>p\<in>set objects. \<exists>s. get_prop p ''id'' = JStr s"
    and "prefix = (case typePrefix options of None \<Rightarrow> [] | Some p \<Rightarrow> p)"
  shows "\<exists>h' new.
     incrementalProductsProcessor (Some f) objects builder options h =
       Inr (h', map builder objects) \<and>
     trace h' = trace h @ new \<and> list_all isDeleteNode new \<and>
     (\<forall>v\<in>set (nodes h). \<forall>p\<in>set objects. \<forall>s full lid.
        internal_type v = JStr (prefix @ ''ShopifyProductVariant'') \<and>
        get_prop p ''id'' = JStr s \<and> pattern_match s = Some (full, ''Product'', lid) \<and>
        get_prop v ''productId'' = JStr (f (JStr s)) \<longrightarrow>
        DeleteNode v \<in> set new \<and> v \<notin> set (nodes h') \<and>
        (\<forall>m\<in>set (nodes h). \<forall>vid.
           internal_type m = JStr (prefix @ ''ShopifyProductVariantMetafield'') \<and>
           get_prop v ''id'' = JStr vid \<and> get_prop m ''productVariantId'' = JStr vid \<longrightarrow>
           DeleteNode m \<in> set new \<and> m \<notin> set (nodes h')))"
proof -
  let ?vt = "prefix @ ''ShopifyProductVariant''"
  let ?mt = "prefix @ ''ShopifyProductVariantMetafield''"
  let ?products = "filter (\<lambda>p. isProduct p = Inr True) objects"
  let ?nodeIds = "map (\<lambda>product. JStr (f (get_prop product ''id''))) ?products"
  let ?V = "filter (\<lambda>node. list_ex (\<lambda>i. sameValueZero i (get_prop node ''productId'')) ?nodeIds)
              (getNodesByType h ?vt)"
  let ?h1 = "foldl (\<lambda>h variant. deleteNode variant h) h ?V"
  let ?variantIds = "map (\<lambda>v. get_prop v ''id'') ?V"
  let ?DM = "\<lambda>metafield. list_ex (\<lambda>i. sameValueZero i (get_prop metafield ''productVariantId''))
               ?variantIds"
  let ?M = "getNodesByType ?h1 ?mt"
  let ?h2 = "foldl (\<lambda>h metafield. if ?DM metafield then deleteNode metafield h else h) ?h1 ?M"
  let ?new = "map DeleteNode ?V @ map DeleteNode (filter ?DM ?M)"
  have run: "incrementalProductsProcessor (Some f) objects builder options h =
      Inr (?h2, map builder objects)"
    using filterProducts_strings [OF assms(1)] assms(2)
    by (simp add: incrementalProductsProcessor_def nodeIdsOf_Some Let_def)
  have tr: "trace ?h2 = trace h @ ?new"
    by (simp add: foldl_deleteNode_trace foldl_deleteNode_all_trace)
  have dl: "list_all isDeleteNode ?new"
    by (auto simp: list_all_iff)
  have n1: "nodes ?h1 = filter (\<lambda>n. n \<notin> set ?V) (nodes h)"
    by (rule foldl_deleteNode_all_nodes)
  have n2: "nodes ?h2 = filter (\<lambda>n. \<not> (n \<in> set ?M \<and> ?DM n)) (nodes ?h1)"
    by (rule foldl_deleteNode_nodes)
  have main: "DeleteNode v \<in> set ?new \<and> v \<notin> set (nodes ?h2) \<and>
        (\<forall>m\<in>set (nodes h). \<forall>vid.
           internal_type m = JStr ?mt \<and>
           get_prop v ''id'' = JStr vid \<and> get_prop m ''productVariantId'' = JStr vid \<longrightarrow>
           DeleteNode m \<in> set ?new \<and> m \<notin> set (nodes ?h2))"
    if v: "v \<in> set (nodes h)" and p: "p \<in> set objects"
      and vt: "internal_type v = JStr ?vt"
      and ps: "get_prop p ''id'' = JStr s" and pm: "pattern_match s = Some (full, ''Product'', lid)"
      and vp: "get_prop v ''productId'' = JStr (f (JStr s))"
    for v p s full lid
  proof -
    have "p \<in> set ?products"
      using p isProduct_matched [OF ps pm] by simp
    then have "JStr (f (JStr s)) \<in> set ?nodeIds"
      using ps by force
    then have "list_ex (\<lambda>i. sameValueZero i (get_prop v ''productId'')) ?nodeIds"
      unfolding list_ex_iff vp by (rule bexI [rotated]) simp
    with v vt have vV: "v \<in> set ?V"
      by (simp add: getNodesByType_def)
    then have d: "DeleteNode v \<in> set ?new" by simp
    from vV have g: "v \<notin> set (nodes ?h2)"
      unfolding n2 n1 by simp
    have mf: "DeleteNode m \<in> set ?new \<and> m \<notin> set (nodes ?h2)"
      if m: "m \<in> set (nodes h)" and mt: "internal_type m = JStr ?mt"
        and vi: "get_prop v ''id'' = JStr vid" and mi: "get_prop m ''productVariantId'' = JStr vid"
      for m vid
    proof -
      have "m \<notin> set ?V"
        using mt by (auto simp: getNodesByType_def)
      with m have "m \<in> set (nodes ?h1)"
        unfolding n1 by simp
      with mt have mM: "m \<in> set ?M"
        using getNodesByType_mem [of m ?h1 ?mt] by blast
      have "JStr vid \<in> set ?variantIds"
        using vV vi by force
      then have dm: "?DM m"
        unfolding list_ex_iff mi by (rule bexI [rotated]) simp
      from mM dm have "DeleteNode m \<in> set ?new" by simp
      moreover from mM dm have "m \<notin> set (nodes ?h2)"
        unfolding n2 by simp
      ultimately show ?thesis by simp
    qed
    from d g mf show ?thesis by blast
  qed
  show ?thesis
    apply (rule exI [of _ ?h2])
    apply (rule exI [of _ ?new])
    apply (intro conjI run tr dl)
    using main by blast
qed


text \<open>
  Without the import the hook ends at the first product of the batch, before it has
  asked the host for anything.
\<close>

lemma incrementalProductsProcessor_without_import:
  assumes "filterProducts objects = Inr products" and "products \<noteq> []"
  shows "incrementalProductsProcessor None objects builder options h =
     Inl (TypeError ''createNodeId is not a function'')"
  using assms by (simp add: incrementalProductsProcessor_def nodeIdsOf_def)

lemma build_demo_metafield:
  "buildNode_part_003 demo_api demo_options demo_metafield = Inr demo_metafield_node"
  by (simp add: builder_eval pattern_eval demo_metafield_def demo_metafield_node_def)

text \<open>
  C2. The claim is that the hook deletes every stored variant whose \<^verbatim>\<open>productId\<close> is a
  product of the batch, and every stored metafield of such a variant. Take the batch that
  holds product 42, and the store that holds what the builder makes of that product, of
  its variant 7 and of the metafield 9 of that variant. The import of \<^verbatim>\<open>createNodeId\<close>
  finds nothing in the node builder, and the hook ends in a type error with nothing
  deleted. Were the host's \<^verbatim>\<open>createNodeId\<close> imported, the hook would return and delete
  nothing: the variant carries the global identifier of its product, and the hook looks
  for the node id. Were the import a function that returns the global identifier, the
  variant would be deleted and its metafield would stay: the hook looks for metafields
  among the nodes of the type \<^verbatim>\<open>ShopifyProductVariantMetafield\<close>, and the builder makes
  them of the type \<^verbatim>\<open>ShopifyMetafield\<close>.
\<close>

theorem incrementalProductsProcessor_keeps_built_nodes:
  "map (buildNode_part_003 demo_api demo_options) [demo_product, demo_variant, demo_metafield] =
     [Inr demo_product_node, Inr demo_variant_node, Inr demo_metafield_node] \<and>
   get_prop demo_variant_node ''productId'' = get_prop demo_product ''id'' \<and>
   get_prop demo_metafield_node ''productVariantId'' = get_prop demo_variant ''id'' \<and>
   incrementalProductsProcessor createNodeId_of_node_builder [demo_product]
     (buildNode_part_003 demo_api demo_options) demo_options demo_built_store =
     Inl (TypeError ''createNodeId is not a function'') \<and>
   incrementalProductsProcessor (Some (createNodeId demo_api)) [demo_product]
     (buildNode_part_003 demo_api demo_options) demo_options demo_built_store =
     Inr (demo_built_store, [Inr demo_product_node]) \<and>
   incrementalProductsProcessor (Some demo_gid_createNodeId) [demo_product]
     (buildNode_part_003 demo_api demo_options) demo_options demo_built_store =
     Inr (\<lparr>nodes = [demo_product_node, demo_metafield_node],
           trace = [DeleteNode demo_variant_node]\<rparr>, [Inr demo_product_node])"
proof -
  have p: "isProduct demo_product = Inr True"
    by (simp add: isProduct_def demo_product_def get_prop_def pattern_eval)
  have t: "internal_type demo_product_node = JStr ''ShopifyProduct''"
    "internal_type demo_variant_node = JStr ''ShopifyProductVariant''"
    "internal_type demo_metafield_node = JStr ''ShopifyMetafield''"
    by (simp_all add: demo_product_node_def demo_variant_node_def demo_metafield_node_def
          internal_type_def get_prop_def)
  have g: "get_prop demo_product ''id'' = JStr ''gid://shopify/Product/42''"
    "get_prop demo_variant ''id'' = JStr ''gid://shopify/ProductVariant/7''"
    "get_prop demo_variant_node ''productId'' = JStr ''gid://shopify/Product/42''"
    "get_prop demo_variant_node ''id'' = JStr ''node:gid://shopify/ProductVariant/7''"
    "get_prop demo_metafield_node ''productVariantId'' = JStr ''gid://shopify/ProductVariant/7''"
    by (simp_all add: demo_product_def demo_variant_def demo_variant_node_def
          demo_metafield_node_def get_prop_def)
  have d: "demo_product_node \<noteq> demo_variant_node" "demo_metafield_node \<noteq> demo_variant_node"
    "demo_variant_node \<noteq> demo_product_node" "demo_variant_node \<noteq> demo_metafield_node"
    "demo_product_node \<noteq> demo_metafield_node" "demo_metafield_node \<noteq> demo_product_node"
    by (simp_all add: demo_product_node_def demo_variant_node_def demo_metafield_node_def)
  have o: "typePrefix demo_options = None"
    by (simp add: demo_options_def)
  have c: "createNodeId demo_api = demo_createNodeId"
    by (simp add: demo_api_def)
  have b: "map (buildNode_part_003 demo_api demo_options)
      [demo_product, demo_variant, demo_metafield] =
     [Inr demo_product_node, Inr demo_variant_node, Inr demo_metafield_node]"
    by (simp add: build_demo_product build_demo_variant build_demo_metafield)
  have 1: "incrementalProductsProcessor createNodeId_of_node_builder [demo_product]
     (buildNode_part_003 demo_api demo_options) demo_options demo_built_store =
     Inl (TypeError ''createNodeId is not a function'')"
    by (simp add: incrementalProductsProcessor_def nodeIdsOf_def p
          createNodeId_of_node_builder_def)
  have 2: "incrementalProductsProcessor (Some (createNodeId demo_api)) [demo_product]
     (buildNode_part_003 demo_api demo_options) demo_options demo_built_store =
     Inr (demo_built_store, [Inr demo_product_node])"
    by (simp add: incrementalProductsProcessor_def nodeIdsOf_def p t g o c
          demo_built_store_def getNodesByType_def demo_createNodeId_def build_demo_product)
  have 3: "incrementalProductsProcessor (Some demo_gid_createNodeId) [demo_product]
     (buildNode_part_003 demo_api demo_options) demo_options demo_built_store =
     Inr (\<lparr>nodes = [demo_product_node, demo_metafield_node],
           trace = [DeleteNode demo_variant_node]\<rparr>, [Inr demo_product_node])"
    by (simp add: incrementalProductsProcessor_def nodeIdsOf_def p t g d o
          demo_built_store_def getNodesByType_def deleteNode_def demo_gid_createNodeId_def
          build_demo_product)
  from b g 1 2 3 show ?thesis by simp
qed

text \<open>
  The nodes that the builder makes carry the whole global identifier as \<^verbatim>\<open>shopifyId\<close>.
  \<^verbatim>\<open>parseInt\<close> finds no digit at its start, so no destroy event matches such a node.
\<close>

lemma parseInt_global_identifier:
  assumes "pattern_match gid = Some (full, remoteType, localId)"
  shows "parseInt (JStr gid) = None"
proof -
  from assms have "take 14 gid = ''gid://shopify/''"
    by (auto simp: pattern_match_def split: if_splits)
  then obtain rest where "gid = CHR ''g'' # rest"
    by (cases gid) auto
  then show ?thesis
    by (simp add: parseInt10_def isWhiteSpace_def isDigit_def)
qed

lemma built_node_matches_no_event:
  assumes "buildNode_part_003 api options result = Inr node"
  shows "\<not> matchesEvent node ev"
proof -
  from assms obtain gid full remoteType localId where
    g: "get_prop result ''id'' = JStr gid"
    and m: "pattern_match gid = Some (full, remoteType, localId)"
    by (auto elim: buildNode_part_003_Inr)
  from buildNode_part_003_fields [OF g m assms]
  have "get_prop node ''shopifyId'' = JStr gid" by simp
  with parseInt_global_identifier [OF m] show ?thesis
    by (simp add: matchesEvent_def)
qed

section \<open>The requests of a pass: when a job is submitted\<close>




















end
